theory Spec2Isabelle
  imports Complex_Main "HOL-Library.AList" "HOL-Library.Multiset"
begin

section \<open>The point-cloud wrapper of \<open>ply_wrapper.py\<close>\<close>

subsection \<open>Exceptions\<close>

text \<open>
  Every \<^verbatim>\<open>raise\<close> of the source, and every exception the interpreter or a library
  raises inside a call the source makes, is a value \<open>Raised cls msg\<close>: the exception
  class and its message. A function that can raise returns \<open>error + 'a\<close>, with
  \<open>Inl\<close> for the exception.
\<close>

datatype exception =
    FileNotFoundError | ValueError | TypeError | AttributeError | IndexError | AxisError

datatype error = Raised (exc_type: exception) (message: string)

text \<open>A name between single quotes, as the messages of the source print it.\<close>

definition quoted :: "string \<Rightarrow> string" where
  "quoted s = CHR 0x27 # s @ [CHR 0x27]"

definition bind :: "error + 'a \<Rightarrow> ('a \<Rightarrow> error + 'b) \<Rightarrow> error + 'b" where
  "bind m f = (case m of Inl e \<Rightarrow> Inl e | Inr v \<Rightarrow> f v)"

subsection \<open>The parsed file: \<open>PlyData\<close>\<close>

text \<open>
  An element group is a table: the declared property names, in the order of the
  header, and one record per point, read by property name. All properties are scalar
  columns. The number of points is the number of records, so every column of a group
  has the same length.
\<close>

datatype ply_element =
  PlyElement (el_name: string) (properties: "string list") (rows: "(string \<Rightarrow> real) list")

datatype PlyData = PlyData (elements: "ply_element list")

text \<open>\<^verbatim>\<open>ply_data.elements[0]\<close>: indexing an empty sequence raises.\<close>

definition elements0 :: "PlyData \<Rightarrow> error + ply_element" where
  "elements0 p =
     (case elements p of
        [] \<Rightarrow> Inl (Raised IndexError ''tuple index out of range'')
      | e # _ \<Rightarrow> Inr e)"

text \<open>
  \<^verbatim>\<open>element[key]\<close> is the field \<open>key\<close> of the group's structured array: the column of
  that property, one value per point. The array raises \<open>ValueError\<close> when it has no
  field of that name.
\<close>

definition element_getitem :: "ply_element \<Rightarrow> string \<Rightarrow> error + real list" where
  "element_getitem e key =
     (if key \<in> set (properties e) then Inr (map (\<lambda>r. r key) (rows e))
      else Inl (Raised ValueError (''no field of name '' @ key)))"

subsection \<open>Strings and \<open>int()\<close>\<close>

definition startswith :: "string \<Rightarrow> string \<Rightarrow> bool" where
  "startswith s p = (take (length p) s = p)"

text \<open>\<^verbatim>\<open>x.split('_')[-1]\<close>: the text after the last underscore, all of \<open>x\<close> if it has none.\<close>

definition last_segment :: "string \<Rightarrow> string" where
  "last_segment x = rev (takeWhile (\<lambda>c. c \<noteq> CHR ''_'') (rev x))"

text \<open>
  \<^verbatim>\<open>int(s)\<close> on a string of ASCII characters without underscore (a last segment has
  none): surrounding whitespace (tab, line feed, vertical tab, form feed, carriage
  return, space) is dropped, one sign is allowed, and at least one decimal digit must
  follow, with nothing else; more than 4300 digits are refused (the default limit of the
  interpreter). \<open>None\<close> is the \<open>ValueError\<close> of \<^verbatim>\<open>int\<close>.
\<close>

definition is_space :: "char \<Rightarrow> bool" where
  "is_space c = (c \<in> set [CHR 0x09, CHR 0x0A, CHR 0x0B, CHR 0x0C, CHR 0x0D, CHR 0x20])"

definition strip :: "string \<Rightarrow> string" where
  "strip s = rev (dropWhile is_space (rev (dropWhile is_space s)))"

definition is_digit :: "char \<Rightarrow> bool" where
  "is_digit c = (c \<in> set ''0123456789'')"

definition digit_value :: "char \<Rightarrow> nat" where
  "digit_value c = of_char c - 48"

definition digits_value :: "string \<Rightarrow> nat" where
  "digits_value ds = foldl (\<lambda>acc c. 10 * acc + digit_value c) 0 ds"

definition max_str_digits :: nat where
  "max_str_digits = 4300"

definition unsigned_int :: "string \<Rightarrow> nat option" where
  "unsigned_int ds =
     (if ds \<noteq> [] \<and> list_all is_digit ds \<and> length ds \<le> max_str_digits
      then Some (digits_value ds) else None)"

definition py_int :: "string \<Rightarrow> int option" where
  "py_int s =
     (case strip s of
        [] \<Rightarrow> None
      | c # r \<Rightarrow>
          if c = CHR ''-'' then map_option (\<lambda>n. - int n) (unsigned_int r)
          else if c = CHR ''+'' then map_option int (unsigned_int r)
          else map_option int (unsigned_int (c # r)))"

text \<open>The sort key of the source: \<^verbatim>\<open>lambda x: int(x.split('_')[-1])\<close>.\<close>

definition int_suffix :: "string \<Rightarrow> int option" where
  "int_suffix x = py_int (last_segment x)"

text \<open>
  \<^verbatim>\<open>sorted(names, key=lambda x: int(x.split('_')[-1]))\<close>: the key of every name is
  computed first, in list order, and the first name whose suffix does not parse raises
  \<open>ValueError\<close>; then the names are sorted by key, names of equal key keeping their
  order (the sort is stable).
\<close>

definition sorted_by_suffix :: "string list \<Rightarrow> error + string list" where
  "sorted_by_suffix names =
     (case find (\<lambda>x. int_suffix x = None) names of
        Some x \<Rightarrow>
          Inl (Raised ValueError
                 (''invalid literal for int() with base 10: '' @ quoted (last_segment x)))
      | None \<Rightarrow> Inr (sort_key (\<lambda>x. the (int_suffix x)) names))"

subsection \<open>Arrays\<close>

text \<open>
  A numeric array is its shape and its values in row-major order. The values are the
  numbers of the file, copied and never computed with.
\<close>

datatype ndarray = NDArray (shape: "nat list") (flat: "real list")

text \<open>\<^verbatim>\<open>a.shape[0]\<close> and \<^verbatim>\<open>len(a)\<close>: both raise on an array without axes.\<close>

definition np_shape0 :: "ndarray \<Rightarrow> error + nat" where
  "np_shape0 a =
     (case shape a of
        [] \<Rightarrow> Inl (Raised IndexError ''tuple index out of range'')
      | n # _ \<Rightarrow> Inr n)"

definition np_len :: "ndarray \<Rightarrow> error + nat" where
  "np_len a =
     (case shape a of
        [] \<Rightarrow> Inl (Raised TypeError ''len() of unsized object'')
      | n # _ \<Rightarrow> Inr n)"

definition np_zeros :: "nat list \<Rightarrow> ndarray" where
  "np_zeros sh = NDArray sh (replicate (prod_list sh) 0)"

text \<open>The number of values in one entry along the first axis.\<close>

definition row_width :: "ndarray \<Rightarrow> nat" where
  "row_width a = prod_list (tl (shape a))"

text \<open>\<^verbatim>\<open>a[r]\<close> as a flat list, for \<open>r\<close> below the leading dimension.\<close>

definition block :: "ndarray \<Rightarrow> nat \<Rightarrow> real list" where
  "block a r = take (row_width a) (drop (r * row_width a) (flat a))"

text \<open>
  \<^verbatim>\<open>np.stack((x, y, z), axis=1)\<close> of one-dimensional arrays: all must have the same
  length \<open>n\<close>; the result has shape \<open>(n, 3)\<close> and row \<open>i\<close> holds the \<open>i\<close>-th value of
  each.
\<close>

definition np_stack_axis1 :: "real list list \<Rightarrow> error + ndarray" where
  "np_stack_axis1 cols =
     (case cols of
        [] \<Rightarrow> Inl (Raised ValueError ''need at least one array to stack'')
      | c # cs \<Rightarrow>
          if list_all (\<lambda>d. length d = length c) cs
          then Inr (NDArray [length c, length cols]
                      (concat (map (\<lambda>i. map (\<lambda>d. d ! i) cols) [0..<length c])))
          else Inl (Raised ValueError ''all input arrays must have the same shape''))"

text \<open>\<^verbatim>\<open>np.asarray(col)[..., np.newaxis]\<close>: a trailing axis of length one.\<close>

definition np_newaxis_last :: "real list \<Rightarrow> ndarray" where
  "np_newaxis_last col = NDArray [length col, 1] col"

text \<open>\<^verbatim>\<open>a.squeeze()\<close> removes every axis of length one.\<close>

definition np_squeeze :: "ndarray \<Rightarrow> ndarray" where
  "np_squeeze a = NDArray (filter (\<lambda>n. n \<noteq> 1) (shape a)) (flat a)"

text \<open>
  \<^verbatim>\<open>a[:, j] = col\<close> on an array of shape \<open>(n, m)\<close> and \<^verbatim>\<open>a[:, j, 0] = col\<close> on one of
  shape \<open>(n, m, 1)\<close>: the value at row \<open>r\<close>, position \<open>j\<close> becomes \<open>col[r]\<close>. The index
  must be in range, and \<open>col\<close> must have \<open>n\<close> values, or one value, which is then used
  for every row.
\<close>

definition set_column :: "ndarray \<Rightarrow> nat \<Rightarrow> real list \<Rightarrow> error + ndarray" where
  "set_column a j col =
     (case shape a of
        [] \<Rightarrow> Inl (Raised IndexError ''too many indices for array'')
      | n # _ \<Rightarrow>
          let w = row_width a in
          if \<not> j < w then Inl (Raised IndexError ''index is out of bounds for axis 1'')
          else if length col \<noteq> n \<and> length col \<noteq> 1
          then Inl (Raised ValueError ''could not broadcast input array'')
          else Inr (NDArray (shape a)
                 (map (\<lambda>k. if k mod w = j then col ! (if length col = n then k div w else 0)
                            else flat a ! k) [0..<n * w])))"

text \<open>
  \<^verbatim>\<open>np.concatenate([a, b], axis=1)\<close>: the second axis must exist in \<open>a\<close> (the check
  that comes first), both arrays must have the same number of axes and agree on every
  axis but the second; entry \<open>r\<close> of the result is entry \<open>r\<close> of \<open>a\<close> followed by entry
  \<open>r\<close> of \<open>b\<close>.
\<close>

definition np_concatenate_axis1 :: "ndarray \<Rightarrow> ndarray \<Rightarrow> error + ndarray" where
  "np_concatenate_axis1 a b =
     (case shape a of
        n # m # rest \<Rightarrow>
          (case shape b of
             n' # m' # rest' \<Rightarrow>
               if length rest' \<noteq> length rest
               then Inl (Raised ValueError
                      ''all the input arrays must have same number of dimensions'')
               else if n' \<noteq> n \<or> rest' \<noteq> rest
               then Inl (Raised ValueError
                      ''all the input array dimensions except for the concatenation axis must match exactly'')
               else Inr (NDArray (n # (m + m') # rest)
                           (concat (map (\<lambda>r. block a r @ block b r) [0..<n])))
           | _ \<Rightarrow> Inl (Raised ValueError
                      ''all the input arrays must have same number of dimensions''))
      | [n] \<Rightarrow> Inl (Raised AxisError ''axis 1 is out of bounds for array of dimension 1'')
      | [] \<Rightarrow> Inl (Raised ValueError ''zero-dimensional arrays cannot be concatenated''))"

text \<open>
  \<^verbatim>\<open>column.count\<close>: the columns of an element group are \<open>numpy\<close> arrays, and a \<open>numpy\<close>
  array has no attribute \<open>count\<close> (an element group has one, its columns have not), so
  reading it raises \<open>AttributeError\<close>. The functions below take the attribute as a
  parameter \<open>cnt\<close>; \<open>ndarray_count cls\<close> is what the library does, the message naming
  the class \<open>cls\<close> of the column (\<open>numpy.ndarray\<close>, or \<open>memmap\<close> for a binary file read
  from a path).
\<close>

definition ndarray_count :: "string \<Rightarrow> real list \<Rightarrow> error + nat" where
  "ndarray_count cls col = Inl (Raised AttributeError
     (quoted cls @ '' object has no attribute '' @ quoted ''count''))"

subsection \<open>The wrapper object\<close>

record PlyWrapper =
  ply_data :: PlyData
  xyz :: ndarray
  opacities :: ndarray
  direct_current :: ndarray
  higher_order_shs :: ndarray
  scaling :: ndarray
  rotation :: ndarray

text \<open>
  The three loops of \<open>capture_data\<close>,
  \<^verbatim>\<open>for i, name in enumerate(names): arr[:, i] = np.asarray(element[name])\<close>,
  and the three assignments \<^verbatim>\<open>direct_current[:, k, 0] = ...\<close>, which are the same loop
  over \<open>f_dc_0\<close>, \<open>f_dc_1\<close>, \<open>f_dc_2\<close> written out.
\<close>

fun fill_columns :: "ply_element \<Rightarrow> ndarray \<Rightarrow> nat \<Rightarrow> string list \<Rightarrow> error + ndarray" where
  "fill_columns e a i [] = Inr a"
| "fill_columns e a i (name # names) =
     bind (element_getitem e name) (\<lambda>col.
     bind (set_column a i col) (\<lambda>a'.
     fill_columns e a' (Suc i) names))"

text \<open>
  The names of one variable-length group: the declared names with the prefix, sorted by
  integer suffix.
\<close>

definition group_names :: "ply_element \<Rightarrow> string \<Rightarrow> error + string list" where
  "group_names e pre = sorted_by_suffix (filter (\<lambda>name. startswith name pre) (properties e))"

definition capture_data :: "PlyData \<Rightarrow> error + PlyWrapper" where
  "capture_data p =
     bind (elements0 p) (\<lambda>e.
     bind (element_getitem e ''x'') (\<lambda>x.
     bind (element_getitem e ''y'') (\<lambda>y.
     bind (element_getitem e ''z'') (\<lambda>z.
     bind (np_stack_axis1 [x, y, z]) (\<lambda>xyz_v.
     bind (element_getitem e ''opacity'') (\<lambda>opacity.
     bind (np_shape0 xyz_v) (\<lambda>n_dc.
     bind (fill_columns e (np_zeros [n_dc, 3, 1]) 0 [''f_dc_0'', ''f_dc_1'', ''f_dc_2'']) (\<lambda>dc.
     bind (group_names e ''f_rest_'') (\<lambda>extra_f_names.
     bind (np_len xyz_v) (\<lambda>n_extra.
     bind (fill_columns e (np_zeros [n_extra, length extra_f_names]) 0 extra_f_names)
       (\<lambda>higher_order_shs_v.
     bind (group_names e ''scale_'') (\<lambda>scale_names.
     bind (np_shape0 xyz_v) (\<lambda>n_scale.
     bind (fill_columns e (np_zeros [n_scale, length scale_names]) 0 scale_names) (\<lambda>scales.
     bind (group_names e ''rot'') (\<lambda>rot_names.
     bind (np_shape0 xyz_v) (\<lambda>n_rot.
     bind (fill_columns e (np_zeros [n_rot, length rot_names]) 0 rot_names) (\<lambda>rots.
     Inr \<lparr> ply_data = p, xyz = xyz_v, opacities = np_newaxis_last opacity,
           direct_current = np_squeeze dc, higher_order_shs = higher_order_shs_v,
           scaling = scales, rotation = rots \<rparr>)))))))))))))))))"

subsection \<open>The constructor\<close>

text \<open>
  The argument of the constructor and of \<open>matching_dimensions\<close> is a string, a
  \<open>Path\<close>, a \<open>PlyData\<close> or anything else. The file system is a parameter: whether a
  path exists, and what \<^verbatim>\<open>PlyData.read\<close> returns or raises for it.
\<close>

datatype pyobj = PyStr string | PyPath string | PyPlyData PlyData | PyOther

record filesystem =
  path_exists :: "string \<Rightarrow> bool"
  ply_read :: "string \<Rightarrow> error + PlyData"

definition init_source :: "filesystem \<Rightarrow> pyobj \<Rightarrow> error + PlyData" where
  "init_source fs data =
     (case data of
        PyStr path \<Rightarrow>
          if \<not> path_exists fs path
          then Inl (Raised FileNotFoundError (''File not found: '' @ path))
          else ply_read fs path
      | PyPath path \<Rightarrow>
          if \<not> path_exists fs path
          then Inl (Raised FileNotFoundError (''File not found: '' @ path))
          else ply_read fs path
      | PyPlyData p \<Rightarrow> Inr p
      | PyOther \<Rightarrow> Inl (Raised ValueError ''Either ply_path or ply_data must be provided.''))"

definition PlyWrapper_init :: "filesystem \<Rightarrow> pyobj \<Rightarrow> error + PlyWrapper" where
  "PlyWrapper_init fs data = bind (init_source fs data) capture_data"

subsection \<open>\<open>matching_dimensions\<close>\<close>

text \<open>\<^verbatim>\<open>ply.elements[0][key].count\<close>, with \<open>cnt\<close> the attribute \<open>count\<close> of a column.\<close>

definition column_count :: "(real list \<Rightarrow> error + nat) \<Rightarrow> PlyData \<Rightarrow> string \<Rightarrow> error + nat" where
  "column_count cnt p key = bind (elements0 p) (\<lambda>e. bind (element_getitem e key) cnt)"

definition counts_match ::
  "(real list \<Rightarrow> error + nat) \<Rightarrow> PlyData \<Rightarrow> PlyData \<Rightarrow> string \<Rightarrow> error + bool" where
  "counts_match cnt a b key =
     bind (column_count cnt a key) (\<lambda>n.
     bind (column_count cnt b key) (\<lambda>m. Inr (n = m)))"

text \<open>\<^verbatim>\<open>A and B\<close>: \<open>B\<close> is evaluated only when \<open>A\<close> is true.\<close>

definition py_and :: "error + bool \<Rightarrow> error + bool \<Rightarrow> error + bool" where
  "py_and a b = bind a (\<lambda>v. if v then b else Inr False)"

definition other_source :: "filesystem \<Rightarrow> pyobj \<Rightarrow> error + PlyData" where
  "other_source fs other =
     (case other of
        PyStr path \<Rightarrow> ply_read fs path
      | PyPath path \<Rightarrow> ply_read fs path
      | PyPlyData p \<Rightarrow> Inr p
      | PyOther \<Rightarrow> Inl (Raised TypeError
          (''The '' @ quoted ''other'' @
           '' parameter must be a file path (str or Path) or a PlyData object.'')))"

definition matching_dimensions ::
  "(real list \<Rightarrow> error + nat) \<Rightarrow> filesystem \<Rightarrow> PlyWrapper \<Rightarrow> pyobj
     \<Rightarrow> error + (string \<times> bool) list" where
  "matching_dimensions cnt fs self other =
     bind (other_source fs other) (\<lambda>other_ply_data.
     bind (py_and (counts_match cnt (ply_data self) other_ply_data ''x'')
          (py_and (counts_match cnt (ply_data self) other_ply_data ''y'')
                  (counts_match cnt (ply_data self) other_ply_data ''z''))) (\<lambda>m_xyz.
     bind (counts_match cnt (ply_data self) other_ply_data ''opacity'') (\<lambda>m_opacities.
     bind (py_and (counts_match cnt (ply_data self) other_ply_data ''f_dc_0'')
          (py_and (counts_match cnt (ply_data self) other_ply_data ''f_dc_1'')
                  (counts_match cnt (ply_data self) other_ply_data ''f_dc_2''))) (\<lambda>m_dc.
     Inr [(''xyz'', m_xyz), (''opacities'', m_opacities), (''direct_current'', m_dc)]))))"

subsection \<open>\<open>get_data\<close>\<close>

text \<open>
  \<^verbatim>\<open>hasattr(self, attr)\<close> and \<^verbatim>\<open>getattr(self, attr)\<close> look the name up in the attributes
  the constructor has set, then in the methods of the class, then in what every object
  inherits from the interpreter (\<open>__class__\<close>, \<open>__dict__\<close>, \<open>__eq__\<close>, ...). The last
  list is not in the source and is the parameter \<open>inherited\<close>.
\<close>

datatype pyval = Arr ndarray | Ply PlyData | BoundMethod string | Inherited string

definition instance_dict :: "PlyWrapper \<Rightarrow> (string \<times> pyval) list" where
  "instance_dict self =
     [(''ply_data'', Ply (ply_data self)),
      (''xyz'', Arr (xyz self)),
      (''opacities'', Arr (opacities self)),
      (''direct_current'', Arr (direct_current self)),
      (''higher_order_shs'', Arr (higher_order_shs self)),
      (''scaling'', Arr (scaling self)),
      (''rotation'', Arr (rotation self))]"

definition class_methods :: "string list" where
  "class_methods =
     [''__init__'', ''matching_dimensions'', ''get_dims'', ''capture_data'', ''get_data'',
      ''get_sh_coeffs_standardized_format'']"

definition getattr :: "string list \<Rightarrow> PlyWrapper \<Rightarrow> string \<Rightarrow> pyval option" where
  "getattr inherited self attr =
     (case map_of (instance_dict self) attr of
        Some v \<Rightarrow> Some v
      | None \<Rightarrow>
          if attr \<in> set class_methods then Some (BoundMethod attr)
          else if attr \<in> set inherited then Some (Inherited attr)
          else None)"

text \<open>The loop of \<open>get_data\<close>; \<^verbatim>\<open>data[attr] = ...\<close> is the update of a dictionary.\<close>

fun get_data_loop ::
  "string list \<Rightarrow> PlyWrapper \<Rightarrow> (string \<times> pyval) list \<Rightarrow> string list
     \<Rightarrow> error + (string \<times> pyval) list" where
  "get_data_loop inherited self data [] = Inr data"
| "get_data_loop inherited self data (attr # attrs) =
     (case getattr inherited self attr of
        Some v \<Rightarrow> get_data_loop inherited self (AList.update attr v data) attrs
      | None \<Rightarrow> Inl (Raised AttributeError
          (quoted attr @ '' is not a valid attribute of PlyWrapper.'')))"

text \<open>\<^verbatim>\<open>if not attrs\<close> holds for the default \<open>None\<close> and for the empty list.\<close>

definition get_data ::
  "string list \<Rightarrow> PlyWrapper \<Rightarrow> string list option \<Rightarrow> error + (string \<times> pyval) list" where
  "get_data inherited self attrs =
     (if attrs = None \<or> attrs = Some [] then
        Inr [(''xyz'', Arr (xyz self)),
             (''opacities'', Arr (opacities self)),
             (''direct_current'', Arr (direct_current self)),
             (''higher_order'', Arr (higher_order_shs self)),
             (''scaling'', Arr (scaling self)),
             (''rotation'', Arr (rotation self))]
      else get_data_loop inherited self [] (the attrs))"

subsection \<open>\<open>get_sh_coeffs_standardized_format\<close>\<close>

text \<open>
  A data frame: the index, one tuple per row, the names of the index levels, and the
  values, one row per index entry.
\<close>

datatype dataframe =
  DataFrame (df_index: "real list list") (df_index_names: "string list") (df_values: ndarray)

text \<open>\<^verbatim>\<open>[tuple(coord) for coord in a]\<close> for a two-dimensional array: its rows.\<close>

definition array_rows :: "ndarray \<Rightarrow> real list list" where
  "array_rows a = (case shape a of [] \<Rightarrow> [] | n # _ \<Rightarrow> map (block a) [0..<n])"

text \<open>
  \<^verbatim>\<open>pd.DataFrame(values, index=idx)\<close>: the values must have at most two axes, and the
  index as many entries as the values have rows.
\<close>

definition pd_DataFrame :: "ndarray \<Rightarrow> real list list \<Rightarrow> error + dataframe" where
  "pd_DataFrame vals idx =
     (case shape vals of
        [n, m] \<Rightarrow>
          if length idx = n then Inr (DataFrame idx [] vals)
          else Inl (Raised ValueError ''Shape of passed values does not match the index'')
      | [n] \<Rightarrow>
          if length idx = n then Inr (DataFrame idx [] (NDArray [n, 1] (flat vals)))
          else Inl (Raised ValueError ''Shape of passed values does not match the index'')
      | _ \<Rightarrow> Inl (Raised ValueError ''Must pass 2-d input''))"

text \<open>
  \<^verbatim>\<open>df.index = pd.MultiIndex.from_tuples(df.index, names=["x", "y", "z"])\<close>: the tuples
  stay as they are, in their order, and the three levels get their names; the number of
  names must be the number of levels.
\<close>

definition set_multiindex :: "dataframe \<Rightarrow> string list \<Rightarrow> error + dataframe" where
  "set_multiindex df names =
     (if list_all (\<lambda>t. length t = length names) (df_index df)
      then Inr (DataFrame (df_index df) names (df_values df))
      else Inl (Raised ValueError
             ''Length of names must match number of levels in MultiIndex.''))"

definition get_sh_coeffs_standardized_format :: "PlyWrapper \<Rightarrow> error + dataframe" where
  "get_sh_coeffs_standardized_format self =
     (let xyz_tuples = array_rows (xyz self) in
      bind (np_concatenate_axis1 (direct_current self) (higher_order_shs self)) (\<lambda>sh_coeffs.
      bind (pd_DataFrame sh_coeffs xyz_tuples) (\<lambda>df.
      set_multiindex df [''x'', ''y'', ''z''])))"

subsection \<open>Notions used in the statements\<close>

text \<open>
  The array of shape \<open>sh\<close> that holds, for every point of the group in turn, the values
  of the named properties in the order of \<open>names\<close>: column \<open>c\<close> of the array is the
  column of the property \<open>names ! c\<close>.
\<close>

definition table :: "nat list \<Rightarrow> ply_element \<Rightarrow> string list \<Rightarrow> ndarray" where
  "table sh e names = NDArray sh (concat (map (\<lambda>r. map r names) (rows e)))"

text \<open>
  \<open>names\<close> lists the declared properties of the group with prefix \<open>pre\<close>, each once,
  every suffix is an integer, the suffixes ascend along the list, and the names of one
  suffix stand in the order of their declaration.
\<close>

definition sorted_columns :: "ply_element \<Rightarrow> string \<Rightarrow> string list \<Rightarrow> bool" where
  "sorted_columns e pre names \<longleftrightarrow>
     mset names = mset (filter (\<lambda>name. startswith name pre) (properties e))
     \<and> (\<forall>name\<in>set names. int_suffix name \<noteq> None)
     \<and> sorted (map (\<lambda>name. the (int_suffix name)) names)
     \<and> (\<forall>k. filter (\<lambda>name. the (int_suffix name) = k) names
            = filter (\<lambda>name. the (int_suffix name) = k)
                (filter (\<lambda>name. startswith name pre) (properties e)))"

text \<open>The properties \<open>capture_data\<close> collects into a variable-length group.\<close>

definition collected :: "string \<Rightarrow> bool" where
  "collected name \<longleftrightarrow>
     startswith name ''f_rest_'' \<or> startswith name ''scale_'' \<or> startswith name ''rot''"

text \<open>The six arrays of a wrapper.\<close>

definition arrays_of :: "PlyWrapper \<Rightarrow> ndarray \<times> ndarray \<times> ndarray \<times> ndarray \<times> ndarray \<times> ndarray" where
  "arrays_of w = (xyz w, opacities w, direct_current w, higher_order_shs w, scaling w, rotation w)"

text \<open>The properties \<open>capture_data\<close> reads by name, in the order in which it reads them.\<close>

definition required_properties :: "string list" where
  "required_properties = [''x'', ''y'', ''z'', ''opacity'', ''f_dc_0'', ''f_dc_1'', ''f_dc_2'']"

subsection \<open>An example input\<close>

text \<open>
  A file \<open>cloud.ply\<close> with one element group of two points, whose scale properties are
  declared in the order \<open>scale_2\<close>, \<open>scale_0\<close>, \<open>scale_1\<close>, and the wrapper the
  constructor builds from it.
\<close>

definition record_of :: "(string \<times> real) list \<Rightarrow> string \<Rightarrow> real" where
  "record_of kvs key = (case map_of kvs key of Some v \<Rightarrow> v | None \<Rightarrow> 0)"

definition example_properties :: "string list" where
  "example_properties =
     [''x'', ''y'', ''z'', ''opacity'', ''f_dc_0'', ''f_dc_1'', ''f_dc_2'',
      ''scale_2'', ''scale_0'', ''scale_1'', ''rot_0'', ''f_rest_0'']"

definition example_point :: "real \<Rightarrow> string \<Rightarrow> real" where
  "example_point b = record_of
     [(''x'', b + 1), (''y'', b + 2), (''z'', b + 3), (''opacity'', b + 4),
      (''f_dc_0'', b + 5), (''f_dc_1'', b + 6), (''f_dc_2'', b + 7),
      (''scale_2'', b + 12), (''scale_0'', b + 10), (''scale_1'', b + 11),
      (''rot_0'', b + 20), (''f_rest_0'', b + 30)]"

definition example_element :: ply_element where
  "example_element = PlyElement ''vertex'' example_properties [example_point 0, example_point 100]"

definition example_ply :: PlyData where
  "example_ply = PlyData [example_element]"

definition example_wrapper :: PlyWrapper where
  "example_wrapper =
     \<lparr> ply_data = example_ply,
       xyz = NDArray [2, 3] [1, 2, 3, 101, 102, 103],
       opacities = NDArray [2, 1] [4, 104],
       direct_current = NDArray [2, 3] [5, 6, 7, 105, 106, 107],
       higher_order_shs = NDArray [2, 1] [30, 130],
       scaling = NDArray [2, 3] [10, 11, 12, 110, 111, 112],
       rotation = NDArray [2, 1] [20, 120] \<rparr>"

definition example_fs :: filesystem where
  "example_fs =
     \<lparr> path_exists = (\<lambda>path. path = ''cloud.ply''),
       ply_read = (\<lambda>path. if path = ''cloud.ply'' then Inr example_ply
                           else Inl (Raised FileNotFoundError path)) \<rparr>"

text \<open>The same group with one point only, and a group without \<open>opacity\<close>.\<close>

definition example_one_point :: PlyData where
  "example_one_point = PlyData [PlyElement ''vertex'' example_properties [example_point 0]]"

definition example_no_opacity :: PlyData where
  "example_no_opacity = PlyData [PlyElement ''vertex'' [''x'', ''y'', ''z''] [example_point 0]]"

text \<open>
  The example with its properties declared in ascending order, and a group with a
  property \<open>rotation\<close>.
\<close>

definition example_reordered :: PlyData where
  "example_reordered = PlyData [PlyElement ''vertex''
     [''x'', ''y'', ''z'', ''opacity'', ''f_dc_0'', ''f_dc_1'', ''f_dc_2'',
      ''f_rest_0'', ''scale_0'', ''scale_1'', ''scale_2'', ''rot_0'']
     [example_point 0, example_point 100]]"

definition example_rotation_name :: PlyData where
  "example_rotation_name = PlyData [PlyElement ''vertex''
     [''x'', ''y'', ''z'', ''opacity'', ''f_dc_0'', ''f_dc_1'', ''f_dc_2'', ''rotation'']
     [example_point 0]]"

text \<open>
  Two groups of one point that differ in the order of \<open>scale_1\<close> and \<open>scale_01\<close> only,
  and a group with the properties \<open>rot_5\<close> and \<open>rotten_3\<close>.
\<close>

definition example_tied_point :: "string \<Rightarrow> real" where
  "example_tied_point = record_of
     [(''x'', 1), (''y'', 2), (''z'', 3), (''opacity'', 4),
      (''f_dc_0'', 5), (''f_dc_1'', 6), (''f_dc_2'', 7), (''scale_1'', 8), (''scale_01'', 9)]"

definition example_tied_first :: PlyData where
  "example_tied_first = PlyData [PlyElement ''vertex''
     [''x'', ''y'', ''z'', ''opacity'', ''f_dc_0'', ''f_dc_1'', ''f_dc_2'', ''scale_1'', ''scale_01'']
     [example_tied_point]]"

definition example_tied_second :: PlyData where
  "example_tied_second = PlyData [PlyElement ''vertex''
     [''x'', ''y'', ''z'', ''opacity'', ''f_dc_0'', ''f_dc_1'', ''f_dc_2'', ''scale_01'', ''scale_1'']
     [example_tied_point]]"

definition example_rotten :: PlyData where
  "example_rotten = PlyData [PlyElement ''vertex''
     [''x'', ''y'', ''z'', ''opacity'', ''f_dc_0'', ''f_dc_1'', ''f_dc_2'', ''rot_5'', ''rotten_3'']
     [record_of
        [(''x'', 1), (''y'', 2), (''z'', 3), (''opacity'', 4),
         (''f_dc_0'', 5), (''f_dc_1'', 6), (''f_dc_2'', 7), (''rot_5'', 50), (''rotten_3'', 30)]]]"

text \<open>The example followed by a second element group.\<close>

definition example_two_groups :: PlyData where
  "example_two_groups = PlyData [example_element,
     PlyElement ''face'' [''scale_x'', ''a''] [record_of [(''a'', 1)], record_of [(''a'', 2)],
       record_of [(''a'', 3)]]]"

section \<open>Properties\<close>

subsection \<open>Evaluation of the example\<close>

lemma int_suffix_examples:
  "int_suffix ''scale_0'' = Some 0" "int_suffix ''scale_1'' = Some 1" "int_suffix ''scale_2'' = Some 2"
  "int_suffix ''rot_0'' = Some 0" "int_suffix ''f_rest_0'' = Some 0"
  by (simp_all add: int_suffix_def py_int_def last_segment_def strip_def is_space_def
        unsigned_int_def is_digit_def digits_value_def digit_value_def max_str_digits_def)

lemma capture_example: "capture_data example_ply = Inr example_wrapper"
  by (simp add: capture_data_def example_ply_def example_element_def example_properties_def
      example_point_def record_of_def example_wrapper_def bind_def elements0_def element_getitem_def
      np_stack_axis1_def np_shape0_def np_len_def np_zeros_def set_column_def row_width_def
      np_squeeze_def np_newaxis_last_def group_names_def sorted_by_suffix_def startswith_def
      int_suffix_examples upt_rec)

subsection \<open>Sequencing\<close>

lemma bind_Inr [simp]: "bind (Inr v) f = f v"
  by (simp add: bind_def)

lemma bind_Inl [simp]: "bind (Inl e) f = Inl e"
  by (simp add: bind_def)

lemma bind_eq_Inr: "bind m f = Inr y \<longleftrightarrow> (\<exists>v. m = Inr v \<and> f v = Inr y)"
  by (cases m) simp_all

subsection \<open>\<open>get_data\<close>: the names it accepts\<close>

lemma getattr_simps:
  "getattr inh w ''xyz'' = Some (Arr (xyz w))"
  "getattr inh w ''opacities'' = Some (Arr (opacities w))"
  "getattr inh w ''direct_current'' = Some (Arr (direct_current w))"
  "getattr inh w ''higher_order_shs'' = Some (Arr (higher_order_shs w))"
  "getattr inh w ''scaling'' = Some (Arr (scaling w))"
  "getattr inh w ''rotation'' = Some (Arr (rotation w))"
  "getattr inh w ''ply_data'' = Some (Ply (ply_data w))"
  by (simp_all add: getattr_def instance_dict_def)

lemma getattr_higher_order:
  "getattr inh w ''higher_order'' = (if ''higher_order'' \<in> set inh then Some (Inherited ''higher_order'') else None)"
  by (simp add: getattr_def instance_dict_def class_methods_def)

text \<open>
  Claim C1. With no names, \<open>get_data\<close> returns the six arrays under \<open>xyz\<close>,
  \<open>opacities\<close>, \<open>direct_current\<close>, \<open>higher_order\<close>, \<open>scaling\<close>, \<open>rotation\<close>. Called
  with these six names it does not return them: the array it files under
  \<open>higher_order\<close> is the attribute \<open>higher_order_shs\<close>, the object has no attribute
  \<open>higher_order\<close>, and the call raises \<open>AttributeError\<close> at the fourth name.
\<close>

theorem get_data_six_names_raises:
  assumes "''higher_order'' \<notin> set inherited"
  shows "get_data inherited self
           (Some [''xyz'', ''opacities'', ''direct_current'', ''higher_order'', ''scaling'', ''rotation''])
         = Inl (Raised AttributeError (quoted ''higher_order'' @ '' is not a valid attribute of PlyWrapper.''))"
  using assms by (simp add: get_data_def getattr_simps getattr_higher_order)







text \<open>
  The two calls of claim C1 on the example: the call without names returns the six
  arrays, the call with the six names raises.
\<close>

theorem get_data_six_names_raises_witness:
  "''higher_order'' \<notin> set [''__class__'', ''__dict__'']
   \<and> get_data [''__class__'', ''__dict__''] example_wrapper
        (Some [''xyz'', ''opacities'', ''direct_current'', ''higher_order'', ''scaling'', ''rotation''])
      = Inl (Raised AttributeError (quoted ''higher_order'' @ '' is not a valid attribute of PlyWrapper.''))
   \<and> get_data [''__class__'', ''__dict__''] example_wrapper (Some [])
      = Inr [(''xyz'', Arr (xyz example_wrapper)), (''opacities'', Arr (opacities example_wrapper)),
             (''direct_current'', Arr (direct_current example_wrapper)),
             (''higher_order'', Arr (higher_order_shs example_wrapper)),
             (''scaling'', Arr (scaling example_wrapper)), (''rotation'', Arr (rotation example_wrapper))]"
  using get_data_six_names_raises [of "[''__class__'', ''__dict__'']" example_wrapper]
  by (simp add: get_data_def)

subsection \<open>A value that is neither a path nor a \<open>PlyData\<close>\<close>

text \<open>
  Claim C4, as the code has it. For a value that is neither a string, a \<open>Path\<close> nor a
  \<open>PlyData\<close>, the constructor raises \<open>ValueError\<close> and \<open>matching_dimensions\<close> raises
  \<open>TypeError\<close>.
\<close>

theorem other_type_errors:
  "PlyWrapper_init fs PyOther
     = Inl (Raised ValueError ''Either ply_path or ply_data must be provided.'')
   \<and> matching_dimensions cnt fs self PyOther
     = Inl (Raised TypeError (''The '' @ quoted ''other'' @
          '' parameter must be a file path (str or Path) or a PlyData object.''))"
  by (simp add: PlyWrapper_init_def init_source_def matching_dimensions_def other_source_def)

text \<open>
  Claim C4 as stated fails: on the example the two operations do not raise the same
  exception.
\<close>

theorem other_type_errors_differ:
  "exc_type (projl (PlyWrapper_init example_fs PyOther)) = ValueError
   \<and> exc_type (projl (matching_dimensions (ndarray_count ''numpy.ndarray'') example_fs example_wrapper PyOther)) = TypeError
   \<and> exc_type (projl (PlyWrapper_init example_fs PyOther))
       \<noteq> exc_type (projl (matching_dimensions (ndarray_count ''numpy.ndarray'') example_fs example_wrapper PyOther))"
  by (simp add: PlyWrapper_init_def init_source_def matching_dimensions_def other_source_def)

subsection \<open>Filling an array column by column\<close>

lemma element_getitem_present:
  "key \<in> set (properties e) \<Longrightarrow> element_getitem e key = Inr (map (\<lambda>r. r key) (rows e))"
  by (simp add: element_getitem_def)

lemma element_getitem_absent:
  "key \<notin> set (properties e) \<Longrightarrow>
   element_getitem e key = Inl (Raised ValueError (''no field of name '' @ key))"
  by (simp add: element_getitem_def)

lemma set_column_rows:
  assumes "shape a = n # rest" "prod_list rest = m" "n = length (rows e)" "i < m"
  shows "set_column a i (map (\<lambda>r. r name) (rows e))
         = Inr (NDArray (shape a)
             (map (\<lambda>k. if k mod m = i then (rows e ! (k div m)) name else flat a ! k) [0..<n * m]))"
proof -
  have "k < n * m \<Longrightarrow> k div m < length (rows e)" for k
    using assms(3) by (simp add: less_mult_imp_div_less)
  then show ?thesis
    using assms by (simp add: set_column_def row_width_def Let_def)
qed

lemma fill_columns_map:
  assumes "shape a = n # rest" "prod_list rest = m" "n = length (rows e)"
    "length (flat a) = n * m" "i + length names \<le> m"
  shows "fill_columns e a i names =
     (case find (\<lambda>key. key \<notin> set (properties e)) names of
        Some key \<Rightarrow> Inl (Raised ValueError (''no field of name '' @ key))
      | None \<Rightarrow> Inr (NDArray (shape a)
          (map (\<lambda>k. if i \<le> k mod m \<and> k mod m < i + length names
                     then (rows e ! (k div m)) (names ! (k mod m - i)) else flat a ! k)
             [0..<n * m])))"
  using assms
proof (induction names arbitrary: a i)
  case Nil
  have "map (\<lambda>k. flat a ! k) [0..<n * m] = flat a"
    using Nil.prems(4) map_nth [of "flat a"] by simp
  moreover have "(if i \<le> k mod m \<and> k mod m < i + length ([]::string list)
       then (rows e ! (k div m)) ([] ! (k mod m - i)) else flat a ! k) = flat a ! k" for k
    by simp
  ultimately show ?case
    by (cases a) simp
next
  case (Cons name names)
  show ?case
  proof (cases "name \<in> set (properties e)")
    case False
    then show ?thesis by (simp add: element_getitem_absent)
  next
    case True
    let ?a' = "NDArray (shape a)
       (map (\<lambda>k. if k mod m = i then (rows e ! (k div m)) name else flat a ! k) [0..<n * m])"
    have i: "i < m" using Cons.prems by simp
    have step: "set_column a i (map (\<lambda>r. r name) (rows e)) = Inr ?a'"
      using Cons.prems i by (intro set_column_rows) auto
    have IH: "fill_columns e ?a' (Suc i) names =
       (case find (\<lambda>key. key \<notin> set (properties e)) names of
          Some key \<Rightarrow> Inl (Raised ValueError (''no field of name '' @ key))
        | None \<Rightarrow> Inr (NDArray (shape ?a')
            (map (\<lambda>k. if Suc i \<le> k mod m \<and> k mod m < Suc i + length names
                       then (rows e ! (k div m)) (names ! (k mod m - Suc i)) else flat ?a' ! k)
               [0..<n * m])))"
      using Cons.prems by (intro Cons.IH) auto
    have eq: "(if Suc i \<le> k mod m \<and> k mod m < Suc i + length names
                then (rows e ! (k div m)) (names ! (k mod m - Suc i)) else flat ?a' ! k)
            = (if i \<le> k mod m \<and> k mod m < i + length (name # names)
                then (rows e ! (k div m)) ((name # names) ! (k mod m - i)) else flat a ! k)"
      if "k < n * m" for k
      using that by (auto simp: nth_Cons' Suc_le_eq)
    have "map (\<lambda>k. if Suc i \<le> k mod m \<and> k mod m < Suc i + length names
                       then (rows e ! (k div m)) (names ! (k mod m - Suc i)) else flat ?a' ! k)
               [0..<n * m]
        = map (\<lambda>k. if i \<le> k mod m \<and> k mod m < i + length (name # names)
                then (rows e ! (k div m)) ((name # names) ! (k mod m - i)) else flat a ! k)
               [0..<n * m]"
      by (rule map_cong [OF refl]) (use eq in simp)
    then show ?thesis
      using True step IH by (simp add: element_getitem_present split: option.splits)
  qed
qed

lemma concat_map_upt:
  "concat (map (\<lambda>r. map (f r) [0..<m]) [0..<n]) = map (\<lambda>k. f (k div m) (k mod m)) [0..<n * m]"
proof (induction n)
  case 0
  then show ?case by simp
next
  case (Suc n)
  have len: "Suc n * m = n * m + m" by simp
  have split: "[0..<n * m + m] = [0..<n * m] @ [n * m..<n * m + m]"
    by (rule upt_add_eq_append) simp
  have "[n * m..<n * m + m] = map (\<lambda>j. j + n * m) [0..<m]"
    by (simp only: map_add_upt add.commute [of m])
  then have "map (\<lambda>k. f (k div m) (k mod m)) [n * m..<n * m + m]
        = map (\<lambda>j. f ((j + n * m) div m) ((j + n * m) mod m)) [0..<m]"
    by (simp only: map_map comp_def)
  also have "\<dots> = map (f n) [0..<m]"
    by (rule map_cong [OF refl]) simp
  finally have last: "map (\<lambda>k. f (k div m) (k mod m)) [n * m..<n * m + m] = map (f n) [0..<m]" .
  show ?case
    unfolding len split using Suc last by simp
qed

subsection \<open>What \<open>capture_data\<close> computes\<close>

lemma map_nth_fun: "map (\<lambda>i. g (xs ! i)) [0..<length xs] = map g xs"
  using map_map [of g "\<lambda>i. xs ! i" "[0..<length xs]"] by (simp add: comp_def map_nth)

lemma table_flat_index:
  "concat (map (\<lambda>r. map r names) rs)
   = map (\<lambda>k. (rs ! (k div length names)) (names ! (k mod length names)))
       [0..<length rs * length names]"
proof -
  have "concat (map (\<lambda>r. map r names) rs)
      = concat (map (\<lambda>i. map (\<lambda>j. (rs ! i) (names ! j)) [0..<length names]) [0..<length rs])"
    by (simp add: map_nth_fun [where g = "\<lambda>r. map r names"] map_nth_fun [where xs = names])
  then show ?thesis
    by (simp only: concat_map_upt)
qed

lemma mod_less_of_less_mult: "k < n * m \<Longrightarrow> k mod m < (m::nat)"
  by (cases "m = 0") simp_all

lemma fill_columns_zeros:
  assumes "prod_list rest = length names"
  shows "fill_columns e (np_zeros (length (rows e) # rest)) 0 names =
     (case find (\<lambda>key. key \<notin> set (properties e)) names of
        Some key \<Rightarrow> Inl (Raised ValueError (''no field of name '' @ key))
      | None \<Rightarrow> Inr (table (length (rows e) # rest) e names))"
  using fill_columns_map [of "np_zeros (length (rows e) # rest)" "length (rows e)" rest
      "length names" e 0 names] assms
  by (simp add: np_zeros_def table_def table_flat_index mod_less_of_less_mult
      split: option.splits cong: map_cong)

lemma group_names_subset:
  "group_names e pre = Inr names \<Longrightarrow> set names \<subseteq> set (properties e)"
  by (auto simp: group_names_def sorted_by_suffix_def split: option.splits)

lemma find_absent_None:
  "set names \<subseteq> set (properties e) \<Longrightarrow> find (\<lambda>key. key \<notin> set (properties e)) names = None"
  by (auto simp: find_None_iff)

lemma fill_group:
  assumes "group_names e pre = Inr names"
  shows "fill_columns e (np_zeros [length (rows e), length names]) 0 names
         = Inr (table [length (rows e), length names] e names)"
  using fill_columns_zeros [of "[length names]" names e]
    find_absent_None [OF group_names_subset [OF assms]]
  by simp

lemma stack_xyz:
  "np_stack_axis1 [map (\<lambda>r. r a) rs, map (\<lambda>r. r b) rs, map (\<lambda>r. r c) rs]
   = Inr (NDArray [length rs, 3] (concat (map (\<lambda>r. map r [a, b, c]) rs)))"
proof -
  have "map (\<lambda>i. map (\<lambda>d. d ! i) [map (\<lambda>r. r a) rs, map (\<lambda>r. r b) rs, map (\<lambda>r. r c) rs])
          [0..<length rs]
      = map (\<lambda>i. (\<lambda>r. map r [a, b, c]) (rs ! i)) [0..<length rs]"
    by (rule map_cong [OF refl]) simp
  also have "\<dots> = map (\<lambda>r. map r [a, b, c]) rs"
    by (rule map_nth_fun)
  finally show ?thesis
    by (simp add: np_stack_axis1_def)
qed

lemma concat_singletons: "concat (map (\<lambda>r. [f r]) xs) = map f xs"
  by (induction xs) simp_all

lemma capture_data_eq:
  assumes "elements p = e # es"
  shows "capture_data p =
     (case find (\<lambda>key. key \<notin> set (properties e)) required_properties of
        Some key \<Rightarrow> Inl (Raised ValueError (''no field of name '' @ key))
      | None \<Rightarrow>
          bind (group_names e ''f_rest_'') (\<lambda>extra_f_names.
          bind (group_names e ''scale_'') (\<lambda>scale_names.
          bind (group_names e ''rot'') (\<lambda>rot_names.
          Inr \<lparr> ply_data = p,
                xyz = table [length (rows e), 3] e [''x'', ''y'', ''z''],
                opacities = table [length (rows e), 1] e [''opacity''],
                direct_current =
                  np_squeeze (table [length (rows e), 3, 1] e [''f_dc_0'', ''f_dc_1'', ''f_dc_2'']),
                higher_order_shs = table [length (rows e), length extra_f_names] e extra_f_names,
                scaling = table [length (rows e), length scale_names] e scale_names,
                rotation = table [length (rows e), length rot_names] e rot_names \<rparr>))))"
proof -
  let ?n = "length (rows e)"
  let ?dc = "fill_columns e (np_zeros [?n, 3, 1]) 0 [''f_dc_0'', ''f_dc_1'', ''f_dc_2'']"
  have dc: "?dc = (case find (\<lambda>key. key \<notin> set (properties e)) [''f_dc_0'', ''f_dc_1'', ''f_dc_2''] of
        Some key \<Rightarrow> Inl (Raised ValueError (''no field of name '' @ key))
      | None \<Rightarrow> Inr (table [?n, 3, 1] e [''f_dc_0'', ''f_dc_1'', ''f_dc_2'']))"
    using fill_columns_zeros [of "[3, 1]" "[''f_dc_0'', ''f_dc_1'', ''f_dc_2'']" e] by simp
  have groups: "bind (group_names e pre) (\<lambda>names.
        bind (fill_columns e (np_zeros [?n, length names]) 0 names) (f names))
      = bind (group_names e pre) (\<lambda>names. f names (table [?n, length names] e names))"
    for pre and f :: "string list \<Rightarrow> ndarray \<Rightarrow> error + PlyWrapper"
    by (cases "group_names e pre") (simp_all add: fill_group)
  show ?thesis
  proof (cases "find (\<lambda>key. key \<notin> set (properties e)) [''x'', ''y'', ''z'', ''opacity''] = None")
    case False
    then show ?thesis
      using assms
      by (auto simp: capture_data_def elements0_def required_properties_def element_getitem_def
          stack_xyz split: if_splits)
  next
    case True
    then have present: "''x'' \<in> set (properties e)" "''y'' \<in> set (properties e)"
      "''z'' \<in> set (properties e)" "''opacity'' \<in> set (properties e)"
      by (auto split: if_splits)
    have req: "find (\<lambda>key. key \<notin> set (properties e)) required_properties
        = find (\<lambda>key. key \<notin> set (properties e)) [''f_dc_0'', ''f_dc_1'', ''f_dc_2'']"
      using present by (simp add: required_properties_def)
    have head: "capture_data p =
       bind ?dc (\<lambda>dc.
       bind (group_names e ''f_rest_'') (\<lambda>extra_f_names.
       bind (fill_columns e (np_zeros [?n, length extra_f_names]) 0 extra_f_names)
         (\<lambda>higher_order_shs_v.
       bind (group_names e ''scale_'') (\<lambda>scale_names.
       bind (fill_columns e (np_zeros [?n, length scale_names]) 0 scale_names) (\<lambda>scales.
       bind (group_names e ''rot'') (\<lambda>rot_names.
       bind (fill_columns e (np_zeros [?n, length rot_names]) 0 rot_names) (\<lambda>rots.
       Inr \<lparr> ply_data = p, xyz = table [?n, 3] e [''x'', ''y'', ''z''],
             opacities = table [?n, 1] e [''opacity''],
             direct_current = np_squeeze dc, higher_order_shs = higher_order_shs_v,
             scaling = scales, rotation = rots \<rparr>)))))))"
      using assms present
      by (simp add: capture_data_def elements0_def element_getitem_present stack_xyz
          np_shape0_def np_len_def table_def np_newaxis_last_def concat_singletons)
    show ?thesis
    proof (cases "find (\<lambda>key. key \<notin> set (properties e)) [''f_dc_0'', ''f_dc_1'', ''f_dc_2'']")
      case (Some key)
      then show ?thesis unfolding head req dc by simp
    next
      case None
      show ?thesis
        unfolding head req dc None
        by (simp only: option.case bind_Inr groups)
    qed
  qed
qed

lemma find_SomeD: "find P xs = Some x \<Longrightarrow> x \<in> set xs \<and> P x"
  by (induction xs) (auto split: if_splits)

lemma group_names_Inr_iff:
  "group_names e pre = Inr names \<longleftrightarrow>
     (\<forall>name\<in>set (properties e). startswith name pre \<longrightarrow> int_suffix name \<noteq> None)
     \<and> names = sort_key (\<lambda>x. the (int_suffix x)) (filter (\<lambda>name. startswith name pre) (properties e))"
proof (cases "find (\<lambda>x. int_suffix x = None) (filter (\<lambda>name. startswith name pre) (properties e))")
  case None
  then have "\<forall>x\<in>set (filter (\<lambda>name. startswith name pre) (properties e)). int_suffix x \<noteq> None"
    by (simp add: find_None_iff)
  with None show ?thesis
    by (auto simp: group_names_def sorted_by_suffix_def)
next
  case (Some bad)
  from find_SomeD [OF this] show ?thesis
    using Some by (auto simp: group_names_def sorted_by_suffix_def)
qed

lemma group_names_Inl:
  assumes "name \<in> set (properties e)" "startswith name pre" "int_suffix name = None"
  shows "\<exists>bad. group_names e pre
           = Inl (Raised ValueError (''invalid literal for int() with base 10: '' @ quoted bad))"
proof -
  have "find (\<lambda>x. int_suffix x = None) (filter (\<lambda>name. startswith name pre) (properties e)) \<noteq> None"
    using assms by (auto simp: find_None_iff)
  then show ?thesis
    by (auto simp: group_names_def sorted_by_suffix_def)
qed

lemma capture_data_Inr:
  assumes "capture_data p = Inr w" "elements p = e # es"
  shows "set required_properties \<subseteq> set (properties e)
     \<and> (\<exists>extra_f_names scale_names rot_names.
          group_names e ''f_rest_'' = Inr extra_f_names
        \<and> group_names e ''scale_'' = Inr scale_names
        \<and> group_names e ''rot'' = Inr rot_names
        \<and> w = \<lparr> ply_data = p,
                xyz = table [length (rows e), 3] e [''x'', ''y'', ''z''],
                opacities = table [length (rows e), 1] e [''opacity''],
                direct_current =
                  np_squeeze (table [length (rows e), 3, 1] e [''f_dc_0'', ''f_dc_1'', ''f_dc_2'']),
                higher_order_shs = table [length (rows e), length extra_f_names] e extra_f_names,
                scaling = table [length (rows e), length scale_names] e scale_names,
                rotation = table [length (rows e), length rot_names] e rot_names \<rparr>)"
proof -
  from assms have none: "find (\<lambda>key. key \<notin> set (properties e)) required_properties = None"
    by (auto simp: capture_data_eq split: option.splits)
  then have "set required_properties \<subseteq> set (properties e)"
    by (auto simp: find_None_iff)
  moreover from assms none have "\<exists>extra_f_names scale_names rot_names.
          group_names e ''f_rest_'' = Inr extra_f_names
        \<and> group_names e ''scale_'' = Inr scale_names
        \<and> group_names e ''rot'' = Inr rot_names
        \<and> w = \<lparr> ply_data = p,
                xyz = table [length (rows e), 3] e [''x'', ''y'', ''z''],
                opacities = table [length (rows e), 1] e [''opacity''],
                direct_current =
                  np_squeeze (table [length (rows e), 3, 1] e [''f_dc_0'', ''f_dc_1'', ''f_dc_2'']),
                higher_order_shs = table [length (rows e), length extra_f_names] e extra_f_names,
                scaling = table [length (rows e), length scale_names] e scale_names,
                rotation = table [length (rows e), length rot_names] e rot_names \<rparr>"
    by (simp add: capture_data_eq bind_eq_Inr) blast
  ultimately show ?thesis by simp
qed

lemma capture_data_empty:
  "elements p = [] \<Longrightarrow> capture_data p = Inl (Raised IndexError ''tuple index out of range'')"
  by (simp add: capture_data_def elements0_def)

text \<open>
  Claim C5. When the first element group of the input lacks one of \<open>x\<close>, \<open>y\<close>, \<open>z\<close>,
  \<open>opacity\<close>, \<open>f_dc_0\<close>, \<open>f_dc_1\<close>, \<open>f_dc_2\<close>, the constructor raises: the lookup of the
  first missing property fails with the \<open>ValueError\<close> of the structured array, which is
  the invalid-format error of the wrapper (it has no exception class of its own). When
  the input is a path at which no file exists, the constructor raises
  \<open>FileNotFoundError\<close>.
\<close>

theorem decode_missing_property_or_file:
  "(init_source fs data = Inr p \<longrightarrow> elements p = e # es
      \<longrightarrow> \<not> set required_properties \<subseteq> set (properties e)
      \<longrightarrow> (\<exists>key\<in>set required_properties. key \<notin> set (properties e)
            \<and> PlyWrapper_init fs data = Inl (Raised ValueError (''no field of name '' @ key))))
   \<and> (\<not> path_exists fs path \<longrightarrow>
        PlyWrapper_init fs (PyStr path) = Inl (Raised FileNotFoundError (''File not found: '' @ path))
      \<and> PlyWrapper_init fs (PyPath path) = Inl (Raised FileNotFoundError (''File not found: '' @ path)))"
proof (intro conjI impI)
  assume src: "init_source fs data = Inr p" and el: "elements p = e # es"
    and miss: "\<not> set required_properties \<subseteq> set (properties e)"
  from miss obtain key where key: "find (\<lambda>key. key \<notin> set (properties e)) required_properties = Some key"
    by (cases "find (\<lambda>key. key \<notin> set (properties e)) required_properties")
       (auto simp: find_None_iff)
  then have "key \<in> set required_properties" "key \<notin> set (properties e)"
    by (auto dest: find_SomeD)
  moreover have "PlyWrapper_init fs data = Inl (Raised ValueError (''no field of name '' @ key))"
    using src key by (simp add: PlyWrapper_init_def capture_data_eq [OF el])
  ultimately show "\<exists>key\<in>set required_properties. key \<notin> set (properties e)
      \<and> PlyWrapper_init fs data = Inl (Raised ValueError (''no field of name '' @ key))"
    by blast
qed (simp_all add: PlyWrapper_init_def init_source_def)

text \<open>
  Claim C5 on the examples: a group without \<open>opacity\<close>, and the path
  \<open>/nonexistent/path.ply\<close>.
\<close>

theorem decode_missing_property_or_file_witness:
  "init_source example_fs (PyPlyData example_no_opacity) = Inr example_no_opacity
   \<and> \<not> set required_properties \<subseteq> set [''x'', ''y'', ''z'']
   \<and> PlyWrapper_init example_fs (PyPlyData example_no_opacity)
       = Inl (Raised ValueError ''no field of name opacity'')
   \<and> \<not> path_exists example_fs ''/nonexistent/path.ply''
   \<and> PlyWrapper_init example_fs (PyStr ''/nonexistent/path.ply'')
       = Inl (Raised FileNotFoundError ''File not found: /nonexistent/path.ply'')"
  using decode_missing_property_or_file
    [of example_fs "PyPlyData example_no_opacity" example_no_opacity
        "PlyElement ''vertex'' [''x'', ''y'', ''z''] [example_point 0]" "[]" "''/nonexistent/path.ply''"]
  by (simp add: init_source_def example_no_opacity_def example_fs_def required_properties_def
      PlyWrapper_init_def capture_data_eq)

lemma shape_table [simp]: "shape (table sh e names) = sh"
  by (simp add: table_def)

text \<open>
  Claim C2. For a group of \<open>n\<close> points, \<open>xyz\<close>, \<open>opacities\<close>, \<open>higher_order_shs\<close>,
  \<open>scaling\<close> and \<open>rotation\<close> have the leading dimension \<open>n\<close>. So has \<open>direct_current\<close>,
  of shape \<open>(n, 3)\<close>, unless \<open>n = 1\<close>: then \<open>squeeze()\<close> removes the axis of the points
  as well, the shape is \<open>(3,)\<close> and the leading dimension is 3, not the number of
  points.
\<close>

theorem capture_data_shapes:
  assumes "capture_data p = Inr w" "elements p = e # es"
  shows "shape (xyz w) = [length (rows e), 3]
       \<and> shape (opacities w) = [length (rows e), 1]
       \<and> shape (direct_current w) = (if length (rows e) = 1 then [3] else [length (rows e), 3])
       \<and> shape (higher_order_shs w)
           = [length (rows e), length (filter (\<lambda>name. startswith name ''f_rest_'') (properties e))]
       \<and> shape (scaling w)
           = [length (rows e), length (filter (\<lambda>name. startswith name ''scale_'') (properties e))]
       \<and> shape (rotation w)
           = [length (rows e), length (filter (\<lambda>name. startswith name ''rot'') (properties e))]"
  using capture_data_Inr [OF assms]
  by (auto simp: np_squeeze_def group_names_Inr_iff)

text \<open>
  Claim C2 on the example with one point: the constructor succeeds, \<open>xyz\<close> has shape
  \<open>(1, 3)\<close> and \<open>direct_current\<close> has shape \<open>(3,)\<close>.
\<close>

theorem capture_data_shapes_witness:
  "\<not> isl (capture_data example_one_point)
   \<and> elements example_one_point = [PlyElement ''vertex'' example_properties [example_point 0]]
   \<and> shape (xyz (projr (capture_data example_one_point))) = [1, 3]
   \<and> shape (direct_current (projr (capture_data example_one_point))) = [3]"
proof -
  obtain w where w: "capture_data example_one_point = Inr w"
    by (cases "capture_data example_one_point")
       (simp_all add: capture_data_eq example_one_point_def required_properties_def
          example_properties_def group_names_def sorted_by_suffix_def startswith_def
          int_suffix_examples)
  from capture_data_shapes [OF w, of "PlyElement ''vertex'' example_properties [example_point 0]" "[]"]
  show ?thesis using w by (simp add: example_one_point_def)
qed

subsection \<open>The order of the columns\<close>

lemma group_names_sorted_columns:
  "group_names e pre = Inr names \<Longrightarrow> sorted_columns e pre names"
  by (auto simp: group_names_Inr_iff sorted_columns_def sorted_sort_key sort_key_stable)

lemma map_sort_key: "map f (sort_key f xs) = sort (map f xs)"
  by (rule properties_for_sort [symmetric]) (simp_all add: sorted_sort_key)

lemma sort_mset_cong: "mset xs = mset ys \<Longrightarrow> sort xs = sort ys"
  by (rule properties_for_sort) simp_all

lemma group_names_permuted:
  assumes names: "group_names e pre = Inr names"
    and perm: "mset (properties e') = mset (properties e)"
  shows "\<exists>names'. group_names e' pre = Inr names'
     \<and> map (\<lambda>x. the (int_suffix x)) names' = map (\<lambda>x. the (int_suffix x)) names
     \<and> (distinct (map (\<lambda>x. the (int_suffix x)) names) \<longrightarrow> names' = names)"
proof -
  let ?key = "\<lambda>x. the (int_suffix x)" and ?P = "\<lambda>name. startswith name pre"
  let ?names' = "sort_key ?key (filter ?P (properties e'))"
  from names have parse: "\<forall>name\<in>set (properties e). ?P name \<longrightarrow> int_suffix name \<noteq> None"
    and eq: "names = sort_key ?key (filter ?P (properties e))"
    by (simp_all add: group_names_Inr_iff)
  have set_eq: "set (properties e') = set (properties e)"
    using perm by (rule mset_eq_setD)
  have filt: "mset (filter ?P (properties e')) = mset (filter ?P (properties e))"
    using perm by simp
  have 1: "group_names e' pre = Inr ?names'"
    using parse set_eq by (simp add: group_names_Inr_iff)
  have "sort (map ?key (filter ?P (properties e'))) = sort (map ?key (filter ?P (properties e)))"
    by (rule sort_mset_cong) (simp only: mset_map filt)
  then have 2: "map ?key ?names' = map ?key names"
    by (simp only: eq map_sort_key)
  have 3: "?names' = names" if "distinct (map ?key names)"
  proof (rule sort_key_inj_key_eq)
    show "mset (filter ?P (properties e')) = mset names"
      using filt eq by simp
    have "inj_on ?key (set names)"
      using that by (simp add: distinct_map)
    moreover have "set (filter ?P (properties e')) = set names"
      using filt eq by (metis mset_eq_setD mset_sort)
    ultimately show "inj_on ?key (set (filter ?P (properties e')))" by simp
    show "sorted (map ?key names)"
      unfolding eq by (rule sorted_sort_key)
  qed
  from 1 2 3 show ?thesis by blast
qed

lemma capture_reordered:
  "capture_data example_reordered = Inr (example_wrapper \<lparr> ply_data := example_reordered \<rparr>)"
  by (simp add: capture_data_def example_reordered_def example_point_def record_of_def
      example_wrapper_def bind_def elements0_def element_getitem_def
      np_stack_axis1_def np_shape0_def np_len_def np_zeros_def set_column_def row_width_def
      np_squeeze_def np_newaxis_last_def group_names_def sorted_by_suffix_def startswith_def
      int_suffix_examples upt_rec)

lemma example_permutation:
  "mset [''x'', ''y'', ''z'', ''opacity'', ''f_dc_0'', ''f_dc_1'', ''f_dc_2'',
      ''f_rest_0'', ''scale_0'', ''scale_1'', ''scale_2'', ''rot_0''] = mset example_properties"
  by (simp add: example_properties_def)

lemma capture_data_success:
  assumes el: "elements p = e # es"
    and req: "set required_properties \<subseteq> set (properties e)"
    and parse: "\<forall>name\<in>set (properties e). collected name \<longrightarrow> int_suffix name \<noteq> None"
  shows "\<exists>extra_f_names scale_names rot_names.
          group_names e ''f_rest_'' = Inr extra_f_names
        \<and> group_names e ''scale_'' = Inr scale_names
        \<and> group_names e ''rot'' = Inr rot_names
        \<and> capture_data p = Inr \<lparr> ply_data = p,
                xyz = table [length (rows e), 3] e [''x'', ''y'', ''z''],
                opacities = table [length (rows e), 1] e [''opacity''],
                direct_current =
                  np_squeeze (table [length (rows e), 3, 1] e [''f_dc_0'', ''f_dc_1'', ''f_dc_2'']),
                higher_order_shs = table [length (rows e), length extra_f_names] e extra_f_names,
                scaling = table [length (rows e), length scale_names] e scale_names,
                rotation = table [length (rows e), length rot_names] e rot_names \<rparr>"
proof -
  let ?key = "\<lambda>x. the (int_suffix x)"
  let ?fn = "sort_key ?key (filter (\<lambda>name. startswith name ''f_rest_'') (properties e))"
  let ?sn = "sort_key ?key (filter (\<lambda>name. startswith name ''scale_'') (properties e))"
  let ?rn = "sort_key ?key (filter (\<lambda>name. startswith name ''rot'') (properties e))"
  have g: "group_names e ''f_rest_'' = Inr ?fn" "group_names e ''scale_'' = Inr ?sn"
    "group_names e ''rot'' = Inr ?rn"
    using parse by (simp_all add: group_names_Inr_iff collected_def)
  have none: "find (\<lambda>key. key \<notin> set (properties e)) required_properties = None"
    using req by (auto simp: find_None_iff)
  show ?thesis
    unfolding capture_data_eq [OF el] none g by simp
qed

text \<open>
  Claim C6, as the code has it. When the first group has the seven required properties
  and every collected name has an integer suffix, the constructor succeeds, and in
  \<open>higher_order_shs\<close>, \<open>scaling\<close> and \<open>rotation\<close> the columns are the declared properties
  of the group, each once, in ascending order of the integer after the last underscore,
  the names of one suffix in the order of their declaration. A second input with the
  same points and the same properties declared in another order succeeds as well, with
  the same sequence of suffixes, and with the same array for every group whose suffixes
  are distinct.
\<close>

theorem capture_data_columns_sorted:
  assumes "elements p = e # es"
    and "set required_properties \<subseteq> set (properties e)"
    and "\<forall>name\<in>set (properties e). collected name \<longrightarrow> int_suffix name \<noteq> None"
    and "elements p' = e' # es'" "mset (properties e') = mset (properties e)" "rows e' = rows e"
  shows "\<exists>w w' extra_f_names scale_names rot_names extra_f_names' scale_names' rot_names'.
       capture_data p = Inr w \<and> capture_data p' = Inr w'
     \<and> sorted_columns e ''f_rest_'' extra_f_names
     \<and> sorted_columns e ''scale_'' scale_names
     \<and> sorted_columns e ''rot'' rot_names
     \<and> higher_order_shs w = table [length (rows e), length extra_f_names] e extra_f_names
     \<and> scaling w = table [length (rows e), length scale_names] e scale_names
     \<and> rotation w = table [length (rows e), length rot_names] e rot_names
     \<and> sorted_columns e' ''f_rest_'' extra_f_names'
     \<and> sorted_columns e' ''scale_'' scale_names'
     \<and> sorted_columns e' ''rot'' rot_names'
     \<and> higher_order_shs w' = table [length (rows e), length extra_f_names'] e extra_f_names'
     \<and> scaling w' = table [length (rows e), length scale_names'] e scale_names'
     \<and> rotation w' = table [length (rows e), length rot_names'] e rot_names'
     \<and> map (\<lambda>x. the (int_suffix x)) extra_f_names' = map (\<lambda>x. the (int_suffix x)) extra_f_names
     \<and> map (\<lambda>x. the (int_suffix x)) scale_names' = map (\<lambda>x. the (int_suffix x)) scale_names
     \<and> map (\<lambda>x. the (int_suffix x)) rot_names' = map (\<lambda>x. the (int_suffix x)) rot_names
     \<and> (distinct (map (\<lambda>x. the (int_suffix x)) extra_f_names)
          \<longrightarrow> higher_order_shs w' = higher_order_shs w)
     \<and> (distinct (map (\<lambda>x. the (int_suffix x)) scale_names) \<longrightarrow> scaling w' = scaling w)
     \<and> (distinct (map (\<lambda>x. the (int_suffix x)) rot_names) \<longrightarrow> rotation w' = rotation w)"
proof -
  let ?key = "\<lambda>x. the (int_suffix x)"
  have set_eq: "set (properties e') = set (properties e)"
    using assms(5) by (rule mset_eq_setD)
  from capture_data_success [OF assms(1-3)] obtain fn sn rn w where
    g: "group_names e ''f_rest_'' = Inr fn" "group_names e ''scale_'' = Inr sn"
       "group_names e ''rot'' = Inr rn"
    and cap: "capture_data p = Inr w"
    and weq: "w = \<lparr> ply_data = p,
                xyz = table [length (rows e), 3] e [''x'', ''y'', ''z''],
                opacities = table [length (rows e), 1] e [''opacity''],
                direct_current =
                  np_squeeze (table [length (rows e), 3, 1] e [''f_dc_0'', ''f_dc_1'', ''f_dc_2'']),
                higher_order_shs = table [length (rows e), length fn] e fn,
                scaling = table [length (rows e), length sn] e sn,
                rotation = table [length (rows e), length rn] e rn \<rparr>"
    by blast
  have w: "higher_order_shs w = table [length (rows e), length fn] e fn"
       "scaling w = table [length (rows e), length sn] e sn"
       "rotation w = table [length (rows e), length rn] e rn"
    unfolding weq by simp_all
  have req': "set required_properties \<subseteq> set (properties e')"
    and parse': "\<forall>name\<in>set (properties e'). collected name \<longrightarrow> int_suffix name \<noteq> None"
    using assms(2,3) set_eq by simp_all
  from capture_data_success [OF assms(4) req' parse'] obtain fn' sn' rn' w' where
    g': "group_names e' ''f_rest_'' = Inr fn'" "group_names e' ''scale_'' = Inr sn'"
       "group_names e' ''rot'' = Inr rn'"
    and cap': "capture_data p' = Inr w'"
    and weq': "w' = \<lparr> ply_data = p',
                xyz = table [length (rows e'), 3] e' [''x'', ''y'', ''z''],
                opacities = table [length (rows e'), 1] e' [''opacity''],
                direct_current =
                  np_squeeze (table [length (rows e'), 3, 1] e' [''f_dc_0'', ''f_dc_1'', ''f_dc_2'']),
                higher_order_shs = table [length (rows e'), length fn'] e' fn',
                scaling = table [length (rows e'), length sn'] e' sn',
                rotation = table [length (rows e'), length rn'] e' rn' \<rparr>"
    by blast
  have w': "higher_order_shs w' = table [length (rows e), length fn'] e fn'"
       "scaling w' = table [length (rows e), length sn'] e sn'"
       "rotation w' = table [length (rows e), length rn'] e rn'"
    unfolding weq' using assms(6) by (simp_all add: table_def)
  from group_names_permuted [OF g(1) assms(5)] g'(1)
  have f: "map ?key fn' = map ?key fn" "distinct (map ?key fn) \<longrightarrow> fn' = fn"
    by auto
  from group_names_permuted [OF g(2) assms(5)] g'(2)
  have s: "map ?key sn' = map ?key sn" "distinct (map ?key sn) \<longrightarrow> sn' = sn"
    by auto
  from group_names_permuted [OF g(3) assms(5)] g'(3)
  have r: "map ?key rn' = map ?key rn" "distinct (map ?key rn) \<longrightarrow> rn' = rn"
    by auto
  have sc: "sorted_columns e ''f_rest_'' fn" "sorted_columns e ''scale_'' sn"
    "sorted_columns e ''rot'' rn"
    using g by (simp_all add: group_names_sorted_columns)
  have sc': "sorted_columns e' ''f_rest_'' fn'" "sorted_columns e' ''scale_'' sn'"
    "sorted_columns e' ''rot'' rn'"
    using g' by (simp_all add: group_names_sorted_columns)
  have d1: "distinct (map ?key fn) \<longrightarrow> higher_order_shs w' = higher_order_shs w"
    using f(2) w(1) w'(1) by auto
  have d2: "distinct (map ?key sn) \<longrightarrow> scaling w' = scaling w"
    using s(2) w(2) w'(2) by auto
  have d3: "distinct (map ?key rn) \<longrightarrow> rotation w' = rotation w"
    using r(2) w(3) w'(3) by auto
  show ?thesis
    using cap cap' sc sc' w w' f(1) s(1) r(1) d1 d2 d3 by blast
qed

lemma example_collected_parse:
  "\<forall>name\<in>set example_properties. collected name \<longrightarrow> int_suffix name \<noteq> None"
  by (simp add: example_properties_def collected_def startswith_def int_suffix_examples)

text \<open>
  Claim C6 on the example: declared as \<open>scale_2\<close>, \<open>scale_0\<close>, \<open>scale_1\<close>, the columns
  of \<open>scaling\<close> are \<open>scale_0\<close>, \<open>scale_1\<close>, \<open>scale_2\<close>, as for the input that declares
  them in ascending order.
\<close>

theorem capture_data_columns_sorted_witness:
  "set required_properties \<subseteq> set (properties example_element)
   \<and> filter collected (properties example_element)
        = [''scale_2'', ''scale_0'', ''scale_1'', ''rot_0'', ''f_rest_0'']
   \<and> map int_suffix [''scale_2'', ''scale_0'', ''scale_1'', ''rot_0'', ''f_rest_0'']
        = [Some 2, Some 0, Some 1, Some 0, Some 0]
   \<and> capture_data example_ply = Inr example_wrapper
   \<and> capture_data example_reordered = Inr (example_wrapper \<lparr> ply_data := example_reordered \<rparr>)
   \<and> filter (\<lambda>name. startswith name ''scale_'') (properties example_element)
        = [''scale_2'', ''scale_0'', ''scale_1'']
   \<and> scaling example_wrapper = table [2, 3] example_element [''scale_0'', ''scale_1'', ''scale_2'']
   \<and> scaling (example_wrapper \<lparr> ply_data := example_reordered \<rparr>) = scaling example_wrapper"
proof -
  let ?e' = "PlyElement ''vertex''
     [''x'', ''y'', ''z'', ''opacity'', ''f_dc_0'', ''f_dc_1'', ''f_dc_2'',
      ''f_rest_0'', ''scale_0'', ''scale_1'', ''scale_2'', ''rot_0'']
     [example_point 0, example_point 100]"
  have el: "elements example_ply = example_element # []"
    by (simp add: example_ply_def)
  have el': "elements example_reordered = ?e' # []"
    by (simp add: example_reordered_def)
  have req: "set required_properties \<subseteq> set (properties example_element)"
    by (simp add: required_properties_def example_element_def example_properties_def)
  have parse: "\<forall>name\<in>set (properties example_element). collected name \<longrightarrow> int_suffix name \<noteq> None"
    using example_collected_parse by (simp add: example_element_def)
  have perm: "mset (properties ?e') = mset (properties example_element)"
    using example_permutation by (simp add: example_element_def)
  have rows: "rows ?e' = rows example_element"
    by (simp add: example_element_def)
  have declared: "filter (\<lambda>name. startswith name ''scale_'') (properties example_element)
        = [''scale_2'', ''scale_0'', ''scale_1'']"
    by (simp add: example_element_def example_properties_def startswith_def)
  have columns: "scaling example_wrapper
      = table [2, 3] example_element [''scale_0'', ''scale_1'', ''scale_2'']"
    by (simp add: example_wrapper_def table_def example_element_def example_point_def
        record_of_def)
  have coll: "filter collected (properties example_element)
        = [''scale_2'', ''scale_0'', ''scale_1'', ''rot_0'', ''f_rest_0'']"
    by (simp add: example_element_def example_properties_def collected_def startswith_def)
  from capture_data_columns_sorted [OF el req parse el' perm rows]
  show ?thesis
    using req coll capture_example capture_reordered declared columns
    by (simp add: int_suffix_examples)
qed

lemma int_suffix_tied: "int_suffix ''scale_1'' = Some 1" "int_suffix ''scale_01'' = Some 1"
  by (simp_all add: int_suffix_def py_int_def last_segment_def strip_def is_space_def
        unsigned_int_def is_digit_def digits_value_def digit_value_def max_str_digits_def)

text \<open>
  Claim C6 as stated fails: \<open>scale_1\<close> and \<open>scale_01\<close> have the same suffix 1, and two
  inputs that differ in the order of their declaration only give different columns of
  \<open>scaling\<close>.
\<close>

theorem tied_suffixes_follow_declaration:
  "mset (properties (hd (elements example_tied_second)))
     = mset (properties (hd (elements example_tied_first)))
   \<and> rows (hd (elements example_tied_second)) = rows (hd (elements example_tied_first))
   \<and> \<not> isl (capture_data example_tied_first) \<and> \<not> isl (capture_data example_tied_second)
   \<and> scaling (projr (capture_data example_tied_first)) = NDArray [1, 2] [8, 9]
   \<and> scaling (projr (capture_data example_tied_second)) = NDArray [1, 2] [9, 8]
   \<and> scaling (projr (capture_data example_tied_second))
       \<noteq> scaling (projr (capture_data example_tied_first))"
proof -
  have 1: "capture_data example_tied_first = Inr
      \<lparr> ply_data = example_tied_first, xyz = NDArray [1, 3] [1, 2, 3],
        opacities = NDArray [1, 1] [4], direct_current = NDArray [3] [5, 6, 7],
        higher_order_shs = NDArray [1, 0] [], scaling = NDArray [1, 2] [8, 9],
        rotation = NDArray [1, 0] [] \<rparr>"
    by (simp add: capture_data_eq example_tied_first_def required_properties_def
        group_names_def sorted_by_suffix_def startswith_def int_suffix_tied table_def
        np_squeeze_def example_tied_point_def record_of_def)
  have 2: "capture_data example_tied_second = Inr
      \<lparr> ply_data = example_tied_second, xyz = NDArray [1, 3] [1, 2, 3],
        opacities = NDArray [1, 1] [4], direct_current = NDArray [3] [5, 6, 7],
        higher_order_shs = NDArray [1, 0] [], scaling = NDArray [1, 2] [9, 8],
        rotation = NDArray [1, 0] [] \<rparr>"
    by (simp add: capture_data_eq example_tied_second_def required_properties_def
        group_names_def sorted_by_suffix_def startswith_def int_suffix_tied table_def
        np_squeeze_def example_tied_point_def record_of_def)
  show ?thesis
    unfolding 1 2 by (simp add: example_tied_first_def example_tied_second_def)
qed

lemma group_names_error_type:
  "group_names e pre = Inl err \<Longrightarrow> exc_type err = ValueError"
  by (auto simp: group_names_def sorted_by_suffix_def split: option.splits)

lemma capture_data_bad_suffix:
  assumes "elements p = e # es" "name \<in> set (properties e)" "int_suffix name = None"
    and "startswith name ''f_rest_'' \<or> startswith name ''scale_'' \<or> startswith name ''rot''"
  shows "isl (capture_data p)"
    and "set required_properties \<subseteq> set (properties e)
           \<Longrightarrow> exc_type (projl (capture_data p)) = ValueError"
proof -
  have bad: "isl (group_names e ''f_rest_'') \<or> isl (group_names e ''scale_'')
      \<or> isl (group_names e ''rot'')"
    using group_names_Inl [OF assms(2) _ assms(3)] assms(4) by (metis sum.disc(1))
  show "isl (capture_data p)"
    unfolding capture_data_eq [OF assms(1)] using bad
    by (cases "group_names e ''f_rest_''"; cases "group_names e ''scale_''";
        cases "group_names e ''rot''") (simp_all split: option.splits)
  assume "set required_properties \<subseteq> set (properties e)"
  then have "find (\<lambda>key. key \<notin> set (properties e)) required_properties = None"
    by (auto simp: find_None_iff)
  then show "exc_type (projl (capture_data p)) = ValueError"
    unfolding capture_data_eq [OF assms(1)] using bad
    by (cases "group_names e ''f_rest_''"; cases "group_names e ''scale_''";
        cases "group_names e ''rot''") (simp_all add: group_names_error_type)
qed

lemma int_suffix_rotation: "int_suffix ''rotation'' = None"
  by (simp add: int_suffix_def py_int_def last_segment_def strip_def is_space_def
      unsigned_int_def is_digit_def)

text \<open>
  Claim C10. When the first group has the seven required properties and every collected
  name has an integer suffix, the constructor succeeds and the columns of \<open>rotation\<close>
  are exactly the declared properties whose name starts with \<open>rot\<close>, whatever follows
  the prefix, sorted by suffix. When a declared property with the prefix \<open>f_rest_\<close>,
  \<open>scale_\<close> or \<open>rot\<close> has a last segment that \<open>int()\<close> rejects, \<open>capture_data\<close> and the
  constructor raise and return no wrapper; when the seven required properties are
  present the exception is the \<open>ValueError\<close> of \<open>int()\<close>.
\<close>

theorem rot_prefix_collected_and_suffix_parse:
  "(elements p = e # es \<longrightarrow> set required_properties \<subseteq> set (properties e)
      \<longrightarrow> (\<forall>name\<in>set (properties e). collected name \<longrightarrow> int_suffix name \<noteq> None)
      \<longrightarrow> (\<exists>w rot_names. capture_data p = Inr w
            \<and> (init_source fs data = Inr p \<longrightarrow> PlyWrapper_init fs data = Inr w)
            \<and> rotation w = table [length (rows e), length rot_names] e rot_names
            \<and> sorted_columns e ''rot'' rot_names
            \<and> set rot_names = {name \<in> set (properties e). startswith name ''rot''}))
   \<and> (elements p = e # es \<longrightarrow> name \<in> set (properties e) \<longrightarrow> int_suffix name = None
        \<longrightarrow> startswith name ''f_rest_'' \<or> startswith name ''scale_'' \<or> startswith name ''rot''
        \<longrightarrow> isl (capture_data p)
          \<and> (init_source fs data = Inr p \<longrightarrow> isl (PlyWrapper_init fs data))
          \<and> (set required_properties \<subseteq> set (properties e)
               \<longrightarrow> exc_type (projl (capture_data p)) = ValueError))"
proof (intro conjI impI)
  assume a: "elements p = e # es" "set required_properties \<subseteq> set (properties e)"
    "\<forall>name\<in>set (properties e). collected name \<longrightarrow> int_suffix name \<noteq> None"
  from capture_data_success [OF a] obtain fn sn rn w where
    rot: "group_names e ''rot'' = Inr rn" and cap: "capture_data p = Inr w"
    and weq: "w = \<lparr> ply_data = p,
                xyz = table [length (rows e), 3] e [''x'', ''y'', ''z''],
                opacities = table [length (rows e), 1] e [''opacity''],
                direct_current =
                  np_squeeze (table [length (rows e), 3, 1] e [''f_dc_0'', ''f_dc_1'', ''f_dc_2'']),
                higher_order_shs = table [length (rows e), length fn] e fn,
                scaling = table [length (rows e), length sn] e sn,
                rotation = table [length (rows e), length rn] e rn \<rparr>"
    by blast
  have 1: "rotation w = table [length (rows e), length rn] e rn"
    unfolding weq by simp
  have 2: "sorted_columns e ''rot'' rn"
    using rot by (rule group_names_sorted_columns)
  have 3: "set rn = {name \<in> set (properties e). startswith name ''rot''}"
    using rot by (auto simp: group_names_Inr_iff)
  have 4: "init_source fs data = Inr p \<longrightarrow> PlyWrapper_init fs data = Inr w"
    using cap by (simp add: PlyWrapper_init_def)
  from cap 1 2 3 4
  show "\<exists>w rot_names. capture_data p = Inr w
            \<and> (init_source fs data = Inr p \<longrightarrow> PlyWrapper_init fs data = Inr w)
            \<and> rotation w = table [length (rows e), length rot_names] e rot_names
            \<and> sorted_columns e ''rot'' rot_names
            \<and> set rot_names = {name \<in> set (properties e). startswith name ''rot''}"
    by blast
next
  assume a: "elements p = e # es" "name \<in> set (properties e)" "int_suffix name = None"
    "startswith name ''f_rest_'' \<or> startswith name ''scale_'' \<or> startswith name ''rot''"
  show "isl (capture_data p)"
    by (rule capture_data_bad_suffix(1) [OF a])
  then show "isl (PlyWrapper_init fs data)" if "init_source fs data = Inr p"
    using that by (simp add: PlyWrapper_init_def)
  show "exc_type (projl (capture_data p)) = ValueError"
    if "set required_properties \<subseteq> set (properties e)"
    by (rule capture_data_bad_suffix(2) [OF a that])
qed

lemma int_suffix_rot: "int_suffix ''rot_5'' = Some 5" "int_suffix ''rotten_3'' = Some 3"
  by (simp_all add: int_suffix_def py_int_def last_segment_def strip_def is_space_def
        unsigned_int_def is_digit_def digits_value_def digit_value_def max_str_digits_def)

text \<open>
  Claim C10 on the examples: \<open>rotten_3\<close> is a column of the returned \<open>rotation\<close>,
  before \<open>rot_5\<close>; the property \<open>rotation\<close> starts with \<open>rot\<close>, has no integer suffix,
  and the constructor raises \<open>ValueError\<close>.
\<close>

theorem rot_prefix_collected_and_suffix_parse_witness:
  "set required_properties \<subseteq> set (properties (hd (elements example_rotten)))
   \<and> filter collected (properties (hd (elements example_rotten))) = [''rot_5'', ''rotten_3'']
   \<and> map int_suffix [''rot_5'', ''rotten_3''] = [Some 5, Some 3]
   \<and> startswith ''rotten_3'' ''rot'' \<and> ''rotten_3'' \<in> set (properties (hd (elements example_rotten)))
   \<and> \<not> isl (capture_data example_rotten)
   \<and> rotation (projr (capture_data example_rotten))
       = table [1, 2] (hd (elements example_rotten)) [''rotten_3'', ''rot_5'']
   \<and> rotation (projr (capture_data example_rotten)) = NDArray [1, 2] [30, 50]
   \<and> startswith ''rotation'' ''rot'' \<and> int_suffix ''rotation'' = None
   \<and> ''rotation'' \<in> set (properties (hd (elements example_rotation_name)))
   \<and> capture_data example_rotation_name
       = Inl (Raised ValueError
             (''invalid literal for int() with base 10: '' @ quoted ''rotation''))"
proof -
  let ?e = "PlyElement ''vertex''
     [''x'', ''y'', ''z'', ''opacity'', ''f_dc_0'', ''f_dc_1'', ''f_dc_2'', ''rot_5'', ''rotten_3'']
     [record_of
        [(''x'', 1), (''y'', 2), (''z'', 3), (''opacity'', 4),
         (''f_dc_0'', 5), (''f_dc_1'', 6), (''f_dc_2'', 7), (''rot_5'', 50), (''rotten_3'', 30)]]"
  let ?e2 = "PlyElement ''vertex''
     [''x'', ''y'', ''z'', ''opacity'', ''f_dc_0'', ''f_dc_1'', ''f_dc_2'', ''rotation'']
     [example_point 0]"
  have el: "elements example_rotten = ?e # []"
    by (simp add: example_rotten_def)
  have req: "set required_properties \<subseteq> set (properties ?e)"
    by (simp add: required_properties_def)
  have parse: "\<forall>name\<in>set (properties ?e). collected name \<longrightarrow> int_suffix name \<noteq> None"
    by (simp add: collected_def startswith_def int_suffix_rot)
  have cap: "capture_data example_rotten = Inr
      \<lparr> ply_data = example_rotten, xyz = NDArray [1, 3] [1, 2, 3],
        opacities = NDArray [1, 1] [4], direct_current = NDArray [3] [5, 6, 7],
        higher_order_shs = NDArray [1, 0] [], scaling = NDArray [1, 0] [],
        rotation = NDArray [1, 2] [30, 50] \<rparr>"
    by (simp add: capture_data_eq example_rotten_def required_properties_def
        group_names_def sorted_by_suffix_def startswith_def int_suffix_rot table_def
        np_squeeze_def record_of_def)
  have tab: "table [1, 2] ?e [''rotten_3'', ''rot_5''] = NDArray [1, 2] [30, 50]"
    by (simp add: table_def record_of_def)
  have bad: "capture_data example_rotation_name
       = Inl (Raised ValueError
             (''invalid literal for int() with base 10: '' @ quoted ''rotation''))"
    by (simp add: int_suffix_rotation startswith_def example_rotation_name_def
      capture_data_eq required_properties_def group_names_def sorted_by_suffix_def
      last_segment_def)
  have el2: "elements example_rotation_name = ?e2 # []"
    by (simp add: example_rotation_name_def)
  have coll: "filter collected (properties ?e) = [''rot_5'', ''rotten_3'']"
    by (simp add: collected_def startswith_def)
  from rot_prefix_collected_and_suffix_parse
         [of example_rotten ?e "[]" example_fs "PyPlyData example_rotten" "''rotation''"]
       rot_prefix_collected_and_suffix_parse
         [of example_rotation_name ?e2 "[]" example_fs "PyPlyData example_rotation_name"
             "''rotation''"]
  show ?thesis
    using el req coll cap tab bad el2
    by (simp add: int_suffix_rotation int_suffix_rot startswith_def)
qed

subsection \<open>The data frame\<close>

lemma block_concat:
  "\<forall>x\<in>set xs. length (f x) = m \<Longrightarrow> r < length xs \<Longrightarrow>
   take m (drop (r * m) (concat (map f xs))) = f (xs ! r)"
proof (induction xs arbitrary: r)
  case Nil
  then show ?case by simp
next
  case (Cons x xs)
  show ?case
  proof (cases r)
    case 0
    then show ?thesis using Cons.prems by simp
  next
    case (Suc r')
    then show ?thesis using Cons.prems Cons.IH [of r'] by simp
  qed
qed

lemma block_table:
  assumes "r < length (rows e)" "prod_list rest = length names"
  shows "block (table (n # rest) e names) r = map (rows e ! r) names"
  using block_concat [of "rows e" "\<lambda>r. map r names" "length names" r] assms
  by (simp add: block_def row_width_def table_def)

lemma array_rows_table:
  "array_rows (table [length (rows e), length names] e names) = map (\<lambda>r. map r names) (rows e)"
proof -
  have "map (block (table [length (rows e), length names] e names)) [0..<length (rows e)]
      = map (\<lambda>i. (\<lambda>r. map r names) (rows e ! i)) [0..<length (rows e)]"
    by (rule map_cong [OF refl]) (simp add: block_table)
  also have "\<dots> = map (\<lambda>r. map r names) (rows e)"
    by (rule map_nth_fun)
  finally show ?thesis
    by (simp add: array_rows_def)
qed

lemma concatenate_tables:
  "np_concatenate_axis1 (table [length (rows e), length ns1] e ns1)
     (table [length (rows e), length ns2] e ns2)
   = Inr (table [length (rows e), length ns1 + length ns2] e (ns1 @ ns2))"
proof -
  let ?a = "table [length (rows e), length ns1] e ns1"
  let ?b = "table [length (rows e), length ns2] e ns2"
  have "map (\<lambda>r. block ?a r @ block ?b r) [0..<length (rows e)]
      = map (\<lambda>i. (\<lambda>r. map r (ns1 @ ns2)) (rows e ! i)) [0..<length (rows e)]"
    by (rule map_cong [OF refl]) (simp add: block_table)
  also have "\<dots> = map (\<lambda>r. map r (ns1 @ ns2)) (rows e)"
    by (rule map_nth_fun)
  finally have "concat (map (\<lambda>r. block ?a r @ block ?b r) [0..<length (rows e)])
      = concat (map (\<lambda>r. map r (ns1 @ ns2)) (rows e))"
    by simp
  then show ?thesis
    by (simp add: np_concatenate_axis1_def) (simp add: table_def)
qed

text \<open>
  Claim C8. For a group of \<open>n\<close> points with \<open>n \<noteq> 1\<close>, the data frame has one row per
  point, in the order of the points and without merging equal positions: the index
  entry of a row is the triple \<open>(x, y, z)\<close> of its point, the levels are named \<open>x\<close>,
  \<open>y\<close>, \<open>z\<close>, and its values are \<open>f_dc_0\<close>, \<open>f_dc_1\<close>, \<open>f_dc_2\<close> followed by the columns
  of \<open>higher_order_shs\<close>. For \<open>n = 1\<close> the squeezed \<open>direct_current\<close> has one axis only,
  \<^verbatim>\<open>np.concatenate(..., axis=1)\<close> raises and no data frame is returned.
\<close>

theorem standardized_format_rows:
  assumes "capture_data p = Inr w" "elements p = e # es"
  shows "\<exists>extra_f_names.
       higher_order_shs w = table [length (rows e), length extra_f_names] e extra_f_names
     \<and> get_sh_coeffs_standardized_format w =
        (if length (rows e) = 1
         then Inl (Raised AxisError ''axis 1 is out of bounds for array of dimension 1'')
         else Inr (DataFrame (map (\<lambda>r. [r ''x'', r ''y'', r ''z'']) (rows e)) [''x'', ''y'', ''z'']
                (table [length (rows e), 3 + length extra_f_names] e
                   ([''f_dc_0'', ''f_dc_1'', ''f_dc_2''] @ extra_f_names))))"
proof -
  from capture_data_Inr [OF assms] obtain fn sn rn where
    weq: "w = \<lparr> ply_data = p,
                xyz = table [length (rows e), 3] e [''x'', ''y'', ''z''],
                opacities = table [length (rows e), 1] e [''opacity''],
                direct_current =
                  np_squeeze (table [length (rows e), 3, 1] e [''f_dc_0'', ''f_dc_1'', ''f_dc_2'']),
                higher_order_shs = table [length (rows e), length fn] e fn,
                scaling = table [length (rows e), length sn] e sn,
                rotation = table [length (rows e), length rn] e rn \<rparr>"
    by blast
  let ?dc = "[''f_dc_0'', ''f_dc_1'', ''f_dc_2'']"
  have xyz_rows: "array_rows (xyz w) = map (\<lambda>r. [r ''x'', r ''y'', r ''z'']) (rows e)"
    unfolding weq using array_rows_table [of e "[''x'', ''y'', ''z'']"]
    by (simp add: numeral_3_eq_3)
  have hos: "higher_order_shs w = table [length (rows e), length fn] e fn"
    unfolding weq by simp
  have dc_one: "shape (direct_current w) = [3]" if "length (rows e) = 1"
    unfolding weq using that by (simp add: np_squeeze_def)
  have dc_more: "direct_current w = table [length (rows e), 3] e ?dc" if "length (rows e) \<noteq> 1"
    unfolding weq using that by (simp add: np_squeeze_def table_def)
  have one: "get_sh_coeffs_standardized_format w
      = Inl (Raised AxisError ''axis 1 is out of bounds for array of dimension 1'')" if "length (rows e) = 1"
    using dc_one [OF that]
    by (simp add: get_sh_coeffs_standardized_format_def np_concatenate_axis1_def)
  have conc: "np_concatenate_axis1 (table [length (rows e), 3] e ?dc)
        (table [length (rows e), length fn] e fn)
      = Inr (table [length (rows e), 3 + length fn] e (?dc @ fn))"
    using concatenate_tables [of e ?dc fn] by (simp add: numeral_3_eq_3)
  have more: "get_sh_coeffs_standardized_format w
      = Inr (DataFrame (map (\<lambda>r. [r ''x'', r ''y'', r ''z'']) (rows e)) [''x'', ''y'', ''z'']
                (table [length (rows e), 3 + length fn] e (?dc @ fn)))"
    if "length (rows e) \<noteq> 1"
    unfolding get_sh_coeffs_standardized_format_def Let_def dc_more [OF that] hos conc xyz_rows
    by (simp add: pd_DataFrame_def set_multiindex_def list_all_iff)
  show ?thesis
    using hos one more by (intro exI [of _ fn]) simp
qed

text \<open>
  Claim C8 on the examples: the call raises for the group of one point, and returns two
  rows for the group of two points.
\<close>

theorem standardized_format_rows_witness:
  "\<not> isl (capture_data example_one_point)
   \<and> get_sh_coeffs_standardized_format (projr (capture_data example_one_point))
       = Inl (Raised AxisError ''axis 1 is out of bounds for array of dimension 1'')
   \<and> capture_data example_ply = Inr example_wrapper
   \<and> get_sh_coeffs_standardized_format example_wrapper
       = Inr (DataFrame [[1, 2, 3], [101, 102, 103]] [''x'', ''y'', ''z'']
               (NDArray [2, 4] [5, 6, 7, 30, 105, 106, 107, 130]))"
proof -
  obtain w where w: "capture_data example_one_point = Inr w"
    by (cases "capture_data example_one_point")
       (simp_all add: capture_data_eq example_one_point_def required_properties_def
          example_properties_def group_names_def sorted_by_suffix_def startswith_def
          int_suffix_examples)
  have two: "get_sh_coeffs_standardized_format example_wrapper
       = Inr (DataFrame [[1, 2, 3], [101, 102, 103]] [''x'', ''y'', ''z'']
               (NDArray [2, 4] [5, 6, 7, 30, 105, 106, 107, 130]))"
    by (simp add: get_sh_coeffs_standardized_format_def example_wrapper_def array_rows_def
        block_def row_width_def np_concatenate_axis1_def pd_DataFrame_def set_multiindex_def
        upt_rec)
  from standardized_format_rows [OF w, of "PlyElement ''vertex'' example_properties [example_point 0]" "[]"]
  show ?thesis
    using w two capture_example by (simp add: example_one_point_def)
qed

subsection \<open>Element groups after the first\<close>

lemma capture_data_same_first:
  assumes "elements p = e # es" "elements p' = e # es'"
  shows "capture_data p' = map_sum id (\<lambda>w. w \<lparr> ply_data := p' \<rparr>) (capture_data p)"
  unfolding capture_data_eq [OF assms(1)] capture_data_eq [OF assms(2)]
  by (cases "group_names e ''f_rest_''"; cases "group_names e ''scale_''";
      cases "group_names e ''rot''") (simp_all split: option.splits)

lemma standardized_format_ply_data:
  "get_sh_coeffs_standardized_format (w \<lparr> ply_data := p \<rparr>) = get_sh_coeffs_standardized_format w"
  by (simp add: get_sh_coeffs_standardized_format_def)

lemma counts_match_first:
  assumes "elements0 a' = elements0 a" "elements0 b' = elements0 b"
  shows "counts_match cnt a' b' key = counts_match cnt a b key"
  using assms by (simp add: counts_match_def column_count_def)

lemma matching_dimensions_first:
  assumes "elements0 (ply_data w') = elements0 (ply_data w)" "elements0 q' = elements0 q"
  shows "matching_dimensions cnt fs w' (PyPlyData q') = matching_dimensions cnt fs w (PyPlyData q)"
  by (simp add: matching_dimensions_def other_source_def counts_match_first [OF assms])

text \<open>
  Claim C9. Two inputs with the same first element group give the same six arrays (or
  the same exception), the same data frame and the same result of
  \<open>matching_dimensions\<close>, whatever their other element groups are, on the side of the
  wrapper and on the side of the argument.
\<close>

theorem only_first_element_group:
  assumes "elements p = e # es" "elements p' = e # es'"
    and "elements q = f # fs" "elements q' = f # fs'"
  shows "map_sum id arrays_of (capture_data p') = map_sum id arrays_of (capture_data p)
     \<and> bind (capture_data p') get_sh_coeffs_standardized_format
         = bind (capture_data p) get_sh_coeffs_standardized_format
     \<and> bind (capture_data p') (\<lambda>w. matching_dimensions cnt files w (PyPlyData q'))
         = bind (capture_data p) (\<lambda>w. matching_dimensions cnt files w (PyPlyData q))"
proof -
  note same = capture_data_same_first [OF assms(1,2)]
  have el: "elements0 p' = elements0 p" "elements0 q' = elements0 q"
    using assms by (simp_all add: elements0_def)
  have 1: "map_sum id arrays_of (capture_data p') = map_sum id arrays_of (capture_data p)"
    unfolding same by (cases "capture_data p") (simp_all add: arrays_of_def)
  have 2: "bind (capture_data p') get_sh_coeffs_standardized_format
         = bind (capture_data p) get_sh_coeffs_standardized_format"
    unfolding same by (cases "capture_data p") (simp_all add: standardized_format_ply_data)
  have 3: "bind (capture_data p') (\<lambda>w. matching_dimensions cnt files w (PyPlyData q'))
         = bind (capture_data p) (\<lambda>w. matching_dimensions cnt files w (PyPlyData q))"
  proof (cases "capture_data p")
    case (Inl err)
    then show ?thesis unfolding same by simp
  next
    case (Inr w)
    from capture_data_Inr [OF Inr assms(1)] have "ply_data w = p" by auto
    then have "matching_dimensions cnt files (w \<lparr> ply_data := p' \<rparr>) (PyPlyData q')
        = matching_dimensions cnt files w (PyPlyData q)"
      using el by (intro matching_dimensions_first) simp_all
    then show ?thesis unfolding same Inr by simp
  qed
  from 1 2 3 show ?thesis by simp
qed

text \<open>
  Claim C9 on the example: a second group \<open>face\<close> of three rows, with a property
  \<open>scale_x\<close>, changes nothing.
\<close>

theorem only_first_element_group_witness:
  "elements example_two_groups = example_element # tl (elements example_two_groups)
   \<and> tl (elements example_two_groups) \<noteq> []
   \<and> elements example_ply = [example_element]
   \<and> map_sum id arrays_of (capture_data example_two_groups) = Inr (arrays_of example_wrapper)
   \<and> bind (capture_data example_two_groups) get_sh_coeffs_standardized_format
       = get_sh_coeffs_standardized_format example_wrapper"
  using only_first_element_group [of example_ply example_element "[]" example_two_groups
      "tl (elements example_two_groups)" example_ply example_element "[]" example_two_groups
      "tl (elements example_two_groups)" "ndarray_count ''memmap''" example_fs]
  by (simp add: example_two_groups_def example_ply_def capture_example [unfolded example_ply_def])

subsection \<open>\<open>matching_dimensions\<close> on the source of the wrapper\<close>

lemma init_other_source:
  assumes "init_source fs s = Inr p"
  shows "other_source fs s = Inr p"
  using assms by (cases s) (simp_all add: init_source_def other_source_def split: if_splits)

lemma matching_dimensions_first_count:
  assumes "ply_data a = p" "other_source fs s = Inr q" "elements p = e # es"
    "''x'' \<in> set (properties e)" "cnt (map (\<lambda>r. r ''x'') (rows e)) = Inl err"
  shows "matching_dimensions cnt fs a s = Inl err"
  using assms
  by (simp add: matching_dimensions_def py_and_def counts_match_def column_count_def
      elements0_def element_getitem_present)

text \<open>
  Claim C7. Called with the source the wrapper was built from, \<open>matching_dimensions\<close>
  does not return a mapping: the first comparison reads the attribute \<open>count\<close> of the
  column \<open>x\<close>, a \<open>numpy\<close> array, which has none, and the call raises
  \<open>AttributeError\<close>. The lemma after it shows that the three values would all be true
  if the attribute were the length of the column.
\<close>

theorem own_source_count_attribute:
  assumes "PlyWrapper_init fs s = Inr a"
  shows "matching_dimensions (ndarray_count cls) fs a s
         = Inl (Raised AttributeError
             (quoted cls @ '' object has no attribute '' @ quoted ''count''))"
proof -
  from assms obtain p where src: "init_source fs s = Inr p" and cap: "capture_data p = Inr a"
    by (auto simp: PlyWrapper_init_def bind_eq_Inr)
  from cap obtain e es where el: "elements p = e # es"
    by (cases "elements p") (simp_all add: capture_data_empty)
  from capture_data_Inr [OF cap el]
  have "ply_data a = p" "''x'' \<in> set (properties e)"
    by (auto simp: required_properties_def)
  then show ?thesis
    using init_other_source [OF src] el
    by (intro matching_dimensions_first_count [where p = p and q = p and e = e and es = es])
       (simp_all add: ndarray_count_def)
qed

lemma own_source_if_count_is_length:
  assumes "PlyWrapper_init fs s = Inr a"
  shows "matching_dimensions (\<lambda>col. Inr (length col)) fs a s
         = Inr [(''xyz'', True), (''opacities'', True), (''direct_current'', True)]"
proof -
  from assms obtain p where src: "init_source fs s = Inr p" and cap: "capture_data p = Inr a"
    by (auto simp: PlyWrapper_init_def bind_eq_Inr)
  from cap obtain e es where el: "elements p = e # es"
    by (cases "elements p") (simp_all add: capture_data_empty)
  from capture_data_Inr [OF cap el]
  have "ply_data a = p" "set required_properties \<subseteq> set (properties e)"
    by auto
  then show ?thesis
    using init_other_source [OF src] el
    by (simp add: matching_dimensions_def py_and_def counts_match_def column_count_def
      elements0_def element_getitem_present required_properties_def)
qed

text \<open>
  Claim C7 on the example: the wrapper built from \<open>cloud.ply\<close>, compared with
  \<open>cloud.ply\<close>.
\<close>

theorem own_source_count_attribute_witness:
  "PlyWrapper_init example_fs (PyStr ''cloud.ply'') = Inr example_wrapper
   \<and> matching_dimensions (ndarray_count ''memmap'') example_fs example_wrapper (PyStr ''cloud.ply'')
         = Inl (Raised AttributeError
             (quoted ''memmap'' @ '' object has no attribute '' @ quoted ''count''))"
proof -
  have init: "PlyWrapper_init example_fs (PyStr ''cloud.ply'') = Inr example_wrapper"
    by (simp add: PlyWrapper_init_def init_source_def example_fs_def capture_example)
  from own_source_count_attribute [OF init] init show ?thesis by simp
qed

end
